theory Spec2Isabelle
  imports Complex_Main "HOL-Library.Sublist"
begin

section \<open>Python values\<close>

text \<open>
  The pipeline passes loosely typed dictionaries between its stages: the understanding
  record is whatever JSON object the text-generation service returned, and a result record
  is whatever the graph store returned for a row. Values are therefore modelled dynamically.
  Integers and floats are both \<open>PNum\<close>: the code only compares numbers with literals,
  tests them for zero and adds them, and Python does all three by mathematical value
  (a float is read by its decimal notation; NaN and the infinities are left out).
  A dictionary with string keys is an association list; lookup takes the first entry of a key.
  Strings are lists of characters; a character is a code point below 256, and text with
  other code points is outside the model.
\<close>

datatype pyval =
    PNone
  | PBool bool
  | PNum real
  | PStr string
  | PList "pyval list"
  | PDict "(string \<times> pyval) list"

type_synonym pydict = "(string \<times> pyval) list"

text \<open>The exceptions that the modelled code can raise, by class.\<close>

datatype py_error = TypeError | KeyError | AttributeError | ServiceError

definition bind :: "py_error + 'a \<Rightarrow> ('a \<Rightarrow> py_error + 'b) \<Rightarrow> py_error + 'b" where
  "bind r f = (case r of Inl e \<Rightarrow> Inl e | Inr x \<Rightarrow> f x)"

text \<open>Truth value testing (\<^verbatim>\<open>if x\<close>, \<^verbatim>\<open>not x\<close>, \<^verbatim>\<open>x or y\<close>).\<close>

fun truthy :: "pyval \<Rightarrow> bool" where
  "truthy PNone = False"
| "truthy (PBool b) = b"
| "truthy (PNum x) = (x \<noteq> 0)"
| "truthy (PStr s) = (s \<noteq> [])"
| "truthy (PList xs) = (xs \<noteq> [])"
| "truthy (PDict d) = (d \<noteq> [])"

text \<open>\<^verbatim>\<open>x or y\<close> yields \<open>x\<close> when it is truthy and \<open>y\<close> otherwise.\<close>

definition py_or :: "pyval \<Rightarrow> pyval \<Rightarrow> pyval" where
  "py_or x y = (if truthy x then x else y)"

text \<open>
  The numeric value of an operand of \<^verbatim>\<open>>\<close> or \<^verbatim>\<open>+\<close> against a number:
  \<^verbatim>\<open>bool\<close> is a subclass of \<^verbatim>\<open>int\<close>; every other class raises \<^verbatim>\<open>TypeError\<close>.
\<close>

fun num_of :: "pyval \<Rightarrow> real option" where
  "num_of (PNum x) = Some x"
| "num_of (PBool b) = Some (if b then 1 else 0)"
| "num_of PNone = None"
| "num_of (PStr s) = None"
| "num_of (PList xs) = None"
| "num_of (PDict d) = None"

text \<open>\<^verbatim>\<open>v > c\<close> for a numeric literal \<open>c\<close>.\<close>

definition py_gt :: "pyval \<Rightarrow> real \<Rightarrow> py_error + bool" where
  "py_gt v c = (case num_of v of None \<Rightarrow> Inl TypeError | Some x \<Rightarrow> Inr (c < x))"

text \<open>\<^verbatim>\<open>d.get(k, default)\<close>, \<^verbatim>\<open>k in d\<close> and \<^verbatim>\<open>d.setdefault(k, default)\<close>.\<close>

definition dict_get :: "pydict \<Rightarrow> string \<Rightarrow> pyval \<Rightarrow> pyval" where
  "dict_get d k dflt = (case map_of d k of None \<Rightarrow> dflt | Some v \<Rightarrow> v)"

definition has_key :: "pydict \<Rightarrow> string \<Rightarrow> bool" where
  "has_key d k = (map_of d k \<noteq> None)"

definition setdefault :: "string \<Rightarrow> pyval \<Rightarrow> pydict \<Rightarrow> pydict" where
  "setdefault k v d = (if has_key d k then d else d @ [(k, v)])"

section \<open>Python strings\<close>

text \<open>
  \<^verbatim>\<open>str.isspace\<close>, which decides what \<^verbatim>\<open>str.strip\<close> removes: tab to carriage return
  (9 to 13), the four separators and the space (28 to 32), the next-line control (133) and
  the no-break space (160).
\<close>

definition isspace :: "char \<Rightarrow> bool" where
  "isspace c = ((9::nat) \<le> of_char c \<and> of_char c \<le> (13::nat)
                \<or> (28::nat) \<le> of_char c \<and> of_char c \<le> (32::nat)
                \<or> of_char c = (133::nat)
                \<or> of_char c = (160::nat))"

text \<open>
  \<^verbatim>\<open>str.upper\<close> on one character: the letters a to z (97 to 122) and the accented small
  letters (224 to 254, without the division sign 247) move down by 32. Three characters have
  an upper-case form that is no single code point below 256: the micro sign (181), the
  sharp s (223, which becomes SS) and y with diaeresis (255); they are left as they are.
  None of their upper-case forms holds a letter of MATCH, CREATE, MERGE or RETURN, so the
  two keyword tests of the validator read the same.
\<close>

definition upper_char :: "char \<Rightarrow> char" where
  "upper_char c =
     (if (97::nat) \<le> of_char c \<and> of_char c \<le> (122::nat)
         \<or> (224::nat) \<le> of_char c \<and> of_char c \<le> (254::nat) \<and> of_char c \<noteq> (247::nat)
      then char_of (of_char c - (32::nat)) else c)"

definition py_upper :: "string \<Rightarrow> string" where
  "py_upper s = map upper_char s"

definition py_lstrip :: "string \<Rightarrow> string" where
  "py_lstrip s = dropWhile isspace s"

definition py_rstrip :: "string \<Rightarrow> string" where
  "py_rstrip s = rev (dropWhile isspace (rev s))"

definition py_strip :: "string \<Rightarrow> string" where
  "py_strip s = py_lstrip (py_rstrip s)"

text \<open>\<^verbatim>\<open>s.startswith((p1, p2, ...))\<close>.\<close>

definition py_startswith :: "string \<Rightarrow> string list \<Rightarrow> bool" where
  "py_startswith s ps = list_ex (\<lambda>p. prefix p s) ps"

text \<open>\<^verbatim>\<open>sub in s\<close> for strings: some suffix of \<open>s\<close> starts with \<open>sub\<close>.\<close>

fun str_contains :: "string \<Rightarrow> string \<Rightarrow> bool" where
  "str_contains [] sub = (sub = [])"
| "str_contains (c # cs) sub = (prefix sub (c # cs) \<or> str_contains cs sub)"

text \<open>
  \<^verbatim>\<open>s.replace(old, new)\<close>: the occurrences of \<open>old\<close> are replaced from left to right
  without overlap; an empty \<open>old\<close> matches before every character and at the end.
\<close>

function py_replace :: "string \<Rightarrow> string \<Rightarrow> string \<Rightarrow> string" where
  "py_replace old new s =
     (if old = [] then new @ concat (map (\<lambda>c. c # new) s)
      else if s = [] then []
      else if prefix old s then new @ py_replace old new (drop (length old) s)
      else hd s # py_replace old new (tl s))"
  by pat_completeness auto
termination
  by (relation "measure (\<lambda>(old, new, s). length s)") (auto simp: neq_Nil_conv)

declare py_replace.simps [simp del]

text \<open>
  \<^verbatim>\<open>str(v)\<close>. A string is its own text. The notation Python prints for any other value
  (numbers, lists, dictionaries) is not part of the repository and is taken as the
  parameter \<open>render\<close>. Since integers and floats are one kind of number here, the
  parameter gives one text for \<^verbatim>\<open>3\<close> and \<^verbatim>\<open>3.0\<close>; these texts occur in the wording of
  queries and descriptions only, and no property below reads them.
\<close>

definition py_str :: "(pyval \<Rightarrow> string) \<Rightarrow> pyval \<Rightarrow> string" where
  "py_str render v = (case v of PStr s \<Rightarrow> s | _ \<Rightarrow> render v)"

text \<open>
  Iterating over a value gives the elements of a list, the characters of a string and the
  keys of a dictionary; nothing else is iterable.
\<close>

fun py_iter :: "pyval \<Rightarrow> py_error + pyval list" where
  "py_iter (PList xs) = Inr xs"
| "py_iter (PStr s) = Inr (map (\<lambda>c. PStr [c]) s)"
| "py_iter (PDict d) = Inr (map (\<lambda>kv. PStr (fst kv)) d)"
| "py_iter PNone = Inl TypeError"
| "py_iter (PBool b) = Inl TypeError"
| "py_iter (PNum x) = Inl TypeError"

text \<open>
  \<^verbatim>\<open>x in v\<close> for a string \<open>x\<close>: an equal element of a list, a substring of a string,
  a key of a dictionary.
\<close>

fun py_in :: "string \<Rightarrow> pyval \<Rightarrow> py_error + bool" where
  "py_in x (PList xs) = Inr (PStr x \<in> set xs)"
| "py_in x (PStr s) = Inr (str_contains s x)"
| "py_in x (PDict d) = Inr (has_key d x)"
| "py_in x PNone = Inl TypeError"
| "py_in x (PBool b) = Inl TypeError"
| "py_in x (PNum r) = Inl TypeError"

section \<open>Query generator (\<^verbatim>\<open>query_generator.py\<close>)\<close>

subsection \<open>Query understanding\<close>

text \<open>
  What the single call of \<^verbatim>\<open>understand_query\<close> to the text-generation service ends in:
  any exception of the call or of reading the reply (\<open>CallError\<close>), a reply that
  \<^verbatim>\<open>json.loads\<close> rejects with \<^verbatim>\<open>JSONDecodeError\<close> (\<open>NotJSON\<close>), or a reply that it
  parses into a value (\<open>Parsed\<close>).
\<close>

datatype understanding_reply = CallError | NotJSON | Parsed pyval

definition default_understanding :: "string \<Rightarrow> pydict" where
  "default_understanding intent =
    [(''intent'', PStr intent),
     (''entities'', PList []),
     (''risk_factors'', PList []),
     (''time_scope'', PStr ''current''),
     (''graph_pattern'', PStr ''simple''),
     (''complexity'', PStr ''medium''),
     (''data_focus'', PList [PStr ''warehouses'']),
     (''output_format'', PStr ''summary''),
     (''filters'', PList []),
     (''requires_comparison'', PBool False),
     (''requires_aggregation'', PBool False),
     (''requires_temporal_analysis'', PBool False),
     (''requires_geospatial_analysis'', PBool False)]"

text \<open>
  A parsed JSON object is returned as it is. On any other parsed value the logging line
  \<^verbatim>\<open>understanding.get('intent')\<close> raises \<^verbatim>\<open>AttributeError\<close> inside the \<^verbatim>\<open>try\<close>, which
  the general handler turns into the \<open>error\<close> record.
\<close>

definition understand_query :: "understanding_reply \<Rightarrow> pydict" where
  "understand_query reply =
     (case reply of
        Parsed (PDict understanding) \<Rightarrow> understanding
      | Parsed _ \<Rightarrow> default_understanding ''error''
      | NotJSON \<Rightarrow> default_understanding ''general_query''
      | CallError \<Rightarrow> default_understanding ''error'')"

subsection \<open>Free-form generation\<close>

text \<open>
  The call of \<^verbatim>\<open>generate_cypher\<close> to the service either raises inside the \<^verbatim>\<open>try\<close>
  (also when the reply holds no text) or yields the text of the reply. The prompt only
  feeds the service, so it does not appear in the model.
\<close>

datatype completion = CallFailed | Content string

definition generate_cypher :: "completion \<Rightarrow> string" where
  "generate_cypher reply =
     (case reply of
        CallFailed \<Rightarrow> []
      | Content text \<Rightarrow>
          py_strip (py_replace ''```'' [] (py_replace ''```cypher'' [] (py_strip text))))"

subsection \<open>Template library\<close>

definition template_high_risk_warehouses :: string where
  "template_high_risk_warehouses =
     ''\<newline>'' @
     ''                MATCH (w:Warehouse)-[:EXPERIENCED]->(r:RiskEvent)\<newline>'' @
     ''                WHERE w.risk_score > 0.6\<newline>'' @
     ''                OPTIONAL MATCH (w)-[:HAS_INFRASTRUCTURE]->(i:Infrastructure)\<newline>'' @
     ''                OPTIONAL MATCH (w)-[:OPERATES_IN]->(m:MarketContext)\<newline>'' @
     ''                WITH w, COUNT(r) as risk_count, i, m\<newline>'' @
     ''                RETURN w.warehouse_id as warehouse_id,\<newline>'' @
     ''                       w.risk_score as risk_score,\<newline>'' @
     ''                       w.location_type as location,\<newline>'' @
     ''                       risk_count,\<newline>'' @
     ''                       i.has_electric_backup as has_backup,\<newline>'' @
     ''                       i.is_flood_proof as flood_proof,\<newline>'' @
     ''                       m.is_flood_impacted as in_flood_zone\<newline>'' @
     ''                ORDER BY w.risk_score DESC\<newline>'' @
     ''                LIMIT 10\<newline>'' @
     ''            ''"

definition template_warehouse_risk_profile :: string where
  "template_warehouse_risk_profile =
     ''\<newline>'' @
     ''                MATCH (w:Warehouse {warehouse_id: $warehouse_id})\<newline>'' @
     ''                OPTIONAL MATCH (w)-[e:EXPERIENCED]->(r:RiskEvent)\<newline>'' @
     ''                OPTIONAL MATCH (w)-[:HAS_INFRASTRUCTURE]->(i:Infrastructure)\<newline>'' @
     ''                OPTIONAL MATCH (w)-[:OPERATES_IN]->(m:MarketContext)\<newline>'' @
     ''                OPTIONAL MATCH (w)-[:LOCATED_IN]->(rz:RegionalZone)-[:PART_OF]->(z:Zone)\<newline>'' @
     ''                RETURN w, \<newline>'' @
     ''                       collect(DISTINCT {type: r.event_type, count: r.occurrence_count, severity: r.severity}) as risks,\<newline>'' @
     ''                       i,\<newline>'' @
     ''                       m,\<newline>'' @
     ''                       rz.regional_zone_name as region,\<newline>'' @
     ''                       z.zone_name as zone\<newline>'' @
     ''            ''"

definition template_zone_risk_comparison :: string where
  "template_zone_risk_comparison =
     ''\<newline>'' @
     ''                MATCH (z:Zone)<-[:PART_OF]-(rz:RegionalZone)<-[:LOCATED_IN]-(w:Warehouse)\<newline>'' @
     ''                OPTIONAL MATCH (w)-[:EXPERIENCED]->(r:RiskEvent)\<newline>'' @
     ''                WITH z.zone_name as zone,\<newline>'' @
     ''                     COUNT(DISTINCT w) as total_warehouses,\<newline>'' @
     ''                     AVG(w.risk_score) as avg_risk_score,\<newline>'' @
     ''                     COUNT(r) as total_incidents\<newline>'' @
     ''                RETURN zone, \<newline>'' @
     ''                       total_warehouses,\<newline>'' @
     ''                       ROUND(avg_risk_score, 3) as avg_risk_score,\<newline>'' @
     ''                       total_incidents,\<newline>'' @
     ''                       ROUND(total_incidents * 1.0 / total_warehouses, 2) as incident_rate\<newline>'' @
     ''                ORDER BY avg_risk_score DESC\<newline>'' @
     ''            ''"

definition template_infrastructure_impact :: string where
  "template_infrastructure_impact =
     ''\<newline>'' @
     ''                MATCH (w:Warehouse)-[:HAS_INFRASTRUCTURE]->(i:Infrastructure)\<newline>'' @
     ''                OPTIONAL MATCH (w)-[:EXPERIENCED]->(r:RiskEvent)\<newline>'' @
     ''                WITH i.has_temp_regulation as has_temp_reg,\<newline>'' @
     ''                     i.has_electric_backup as has_backup,\<newline>'' @
     ''                     i.is_flood_proof as flood_proof,\<newline>'' @
     ''                     COUNT(DISTINCT w) as warehouse_count,\<newline>'' @
     ''                     AVG(w.risk_score) as avg_risk,\<newline>'' @
     ''                     COUNT(r) as total_incidents\<newline>'' @
     ''                RETURN has_temp_reg, has_backup, flood_proof,\<newline>'' @
     ''                       warehouse_count,\<newline>'' @
     ''                       ROUND(avg_risk, 3) as avg_risk_score,\<newline>'' @
     ''                       total_incidents\<newline>'' @
     ''                ORDER BY avg_risk_score\<newline>'' @
     ''            ''"

definition template_manager_performance :: string where
  "template_manager_performance =
     ''\<newline>'' @
     ''                MATCH (m:Manager)-[:MANAGES]->(w:Warehouse)\<newline>'' @
     ''                OPTIONAL MATCH (w)-[:EXPERIENCED]->(r:RiskEvent)\<newline>'' @
     ''                WITH m.manager_id as manager_id,\<newline>'' @
     ''                     COUNT(DISTINCT w) as warehouses_managed,\<newline>'' @
     ''                     AVG(w.risk_score) as avg_risk_score,\<newline>'' @
     ''                     AVG(w.product_shipped_tons) as avg_shipment,\<newline>'' @
     ''                     COUNT(r) as total_incidents\<newline>'' @
     ''                WHERE warehouses_managed > 0\<newline>'' @
     ''                RETURN manager_id,\<newline>'' @
     ''                       warehouses_managed,\<newline>'' @
     ''                       ROUND(avg_risk_score, 3) as avg_risk_score,\<newline>'' @
     ''                       ROUND(avg_shipment, 2) as avg_shipment_tons,\<newline>'' @
     ''                       total_incidents,\<newline>'' @
     ''                       ROUND(total_incidents * 1.0 / warehouses_managed, 2) as incidents_per_warehouse\<newline>'' @
     ''                ORDER BY avg_risk_score ASC, avg_shipment DESC\<newline>'' @
     ''                LIMIT 15\<newline>'' @
     ''            ''"

definition template_vulnerable_warehouses :: string where
  "template_vulnerable_warehouses =
     ''\<newline>'' @
     ''                MATCH (w:Warehouse)-[:HAS_INFRASTRUCTURE]->(i:Infrastructure)\<newline>'' @
     ''                WHERE i.has_electric_backup = false\<newline>'' @
     ''                  OR i.is_flood_proof = false\<newline>'' @
     ''                OPTIONAL MATCH (w)-[:OPERATES_IN]->(m:MarketContext)\<newline>'' @
     ''                WHERE m.is_flood_impacted = true\<newline>'' @
     ''                OPTIONAL MATCH (w)-[:EXPERIENCED]->(r:RiskEvent)\<newline>'' @
     ''                WITH w, i, m, COUNT(r) as incident_count\<newline>'' @
     ''                WHERE w.risk_score > 0.5 OR incident_count > 2\<newline>'' @
     ''                RETURN w.warehouse_id as warehouse_id,\<newline>'' @
     ''                       w.risk_score as risk_score,\<newline>'' @
     ''                       w.location_type as location,\<newline>'' @
     ''                       i.has_electric_backup as has_backup,\<newline>'' @
     ''                       i.is_flood_proof as flood_proof,\<newline>'' @
     ''                       m.is_flood_impacted as in_flood_zone,\<newline>'' @
     ''                       incident_count\<newline>'' @
     ''                ORDER BY w.risk_score DESC, incident_count DESC\<newline>'' @
     ''                LIMIT 10\<newline>'' @
     ''            ''"

definition template_breakdown_patterns :: string where
  "template_breakdown_patterns =
     ''\<newline>'' @
     ''                MATCH (w:Warehouse)-[:EXPERIENCED]->(r:RiskEvent)\<newline>'' @
     ''                WHERE r.event_type = 'breakdown'\<newline>'' @
     ''                OPTIONAL MATCH (w)-[:HAS_INFRASTRUCTURE]->(i:Infrastructure)\<newline>'' @
     ''                OPTIONAL MATCH (w)-[:LOCATED_IN]->(rz:RegionalZone)\<newline>'' @
     ''                WITH w, r, i, rz\<newline>'' @
     ''                RETURN w.warehouse_id as warehouse_id,\<newline>'' @
     ''                       w.established_year as year_established,\<newline>'' @
     ''                       r.occurrence_count as breakdown_count,\<newline>'' @
     ''                       r.severity as severity,\<newline>'' @
     ''                       i.has_electric_backup as has_backup,\<newline>'' @
     ''                       i.has_temp_regulation as has_temp_control,\<newline>'' @
     ''                       rz.regional_zone_name as region\<newline>'' @
     ''                ORDER BY r.occurrence_count DESC\<newline>'' @
     ''                LIMIT 15\<newline>'' @
     ''            ''"

definition template_exploration :: string where
  "template_exploration =
     ''\<newline>'' @
     ''                MATCH (w:Warehouse)\<newline>'' @
     ''                OPTIONAL MATCH (w)-[:LOCATED_IN]->(rz:RegionalZone)-[:PART_OF]->(z:Zone)\<newline>'' @
     ''                OPTIONAL MATCH (w)-[:HAS_INFRASTRUCTURE]->(i:Infrastructure)\<newline>'' @
     ''                OPTIONAL MATCH (w)-[:EXPERIENCED]->(r:RiskEvent)\<newline>'' @
     ''                RETURN w.warehouse_id,\<newline>'' @
     ''                       w.location_type,\<newline>'' @
     ''                       w.capacity_size,\<newline>'' @
     ''                       z.zone_name,\<newline>'' @
     ''                       rz.regional_zone_name,\<newline>'' @
     ''                       w.risk_score,\<newline>'' @
     ''                       COUNT(r) as risk_events,\<newline>'' @
     ''                       i.has_temp_regulation,\<newline>'' @
     ''                       i.has_electric_backup,\<newline>'' @
     ''                       i.is_flood_proof\<newline>'' @
     ''                ORDER BY w.warehouse_id\<newline>'' @
     ''                LIMIT 50\<newline>'' @
     ''            ''"

definition template_capacity_analysis :: string where
  "template_capacity_analysis =
     ''\<newline>'' @
     ''                MATCH (w:Warehouse)\<newline>'' @
     ''                OPTIONAL MATCH (w)-[:EXPERIENCED]->(r:RiskEvent)\<newline>'' @
     ''                WITH w, COUNT(r) as incident_count\<newline>'' @
     ''                RETURN w.capacity_size,\<newline>'' @
     ''                       COUNT(w) as warehouse_count,\<newline>'' @
     ''                       AVG(w.risk_score) as avg_risk,\<newline>'' @
     ''                       AVG(w.product_shipped_tons) as avg_shipment,\<newline>'' @
     ''                       SUM(incident_count) as total_incidents,\<newline>'' @
     ''                       AVG(incident_count) as avg_incidents_per_warehouse\<newline>'' @
     ''                ORDER BY w.capacity_size\<newline>'' @
     ''            ''"

definition template_infrastructure_gaps :: string where
  "template_infrastructure_gaps =
     ''\<newline>'' @
     ''                MATCH (w:Warehouse)-[:HAS_INFRASTRUCTURE]->(i:Infrastructure)\<newline>'' @
     ''                WHERE i.has_electric_backup = false \<newline>'' @
     ''                   OR i.is_flood_proof = false \<newline>'' @
     ''                   OR i.has_temp_regulation = false\<newline>'' @
     ''                OPTIONAL MATCH (w)-[:EXPERIENCED]->(r:RiskEvent)\<newline>'' @
     ''                RETURN w.warehouse_id,\<newline>'' @
     ''                       w.risk_score,\<newline>'' @
     ''                       i.has_temp_regulation,\<newline>'' @
     ''                       i.has_electric_backup,\<newline>'' @
     ''                       i.is_flood_proof,\<newline>'' @
     ''                       COUNT(r) as risk_events,\<newline>'' @
     ''                       CASE \<newline>'' @
     ''                         WHEN i.has_electric_backup = false AND i.is_flood_proof = false THEN 'Critical'\<newline>'' @
     ''                         WHEN i.has_electric_backup = false OR i.is_flood_proof = false THEN 'High'\<newline>'' @
     ''                         ELSE 'Medium'\<newline>'' @
     ''                       END as vulnerability_level\<newline>'' @
     ''                ORDER BY w.risk_score DESC\<newline>'' @
     ''                LIMIT 20\<newline>'' @
     ''            ''"

definition template_market_risk_correlation :: string where
  "template_market_risk_correlation =
     ''\<newline>'' @
     ''                MATCH (w:Warehouse)-[:OPERATES_IN]->(m:MarketContext)\<newline>'' @
     ''                OPTIONAL MATCH (w)-[:EXPERIENCED]->(r:RiskEvent)\<newline>'' @
     ''                WITH m, COUNT(DISTINCT w) as warehouses_in_market,\<newline>'' @
     ''                     AVG(w.risk_score) as avg_warehouse_risk,\<newline>'' @
     ''                     COUNT(r) as total_market_risk_events,\<newline>'' @
     ''                     SUM(m.competitor_count) as total_competitors,\<newline>'' @
     ''                     SUM(m.retail_shop_count) as total_retail_shops\<newline>'' @
     ''                RETURN m.market_id,\<newline>'' @
     ''                       warehouses_in_market,\<newline>'' @
     ''                       ROUND(avg_warehouse_risk, 3) as avg_risk_score,\<newline>'' @
     ''                       total_market_risk_events,\<newline>'' @
     ''                       ROUND(total_market_risk_events * 1.0 / warehouses_in_market, 2) as risk_per_warehouse,\<newline>'' @
     ''                       total_competitors,\<newline>'' @
     ''                       total_retail_shops,\<newline>'' @
     ''                       m.is_flood_impacted\<newline>'' @
     ''                ORDER BY avg_warehouse_risk DESC\<newline>'' @
     ''            ''"

definition template_performance_metrics :: string where
  "template_performance_metrics =
     ''\<newline>'' @
     ''                MATCH (w:Warehouse)\<newline>'' @
     ''                OPTIONAL MATCH (w)-[:MANAGES]->(mgr:Manager)\<newline>'' @
     ''                OPTIONAL MATCH (w)-[:EXPERIENCED]->(r:RiskEvent)\<newline>'' @
     ''                WITH mgr, COUNT(DISTINCT w) as warehouses_managed,\<newline>'' @
     ''                     AVG(w.risk_score) as avg_risk,\<newline>'' @
     ''                     AVG(w.product_shipped_tons) as avg_shipments,\<newline>'' @
     ''                     COUNT(r) as total_risk_events\<newline>'' @
     ''                WHERE warehouses_managed > 0\<newline>'' @
     ''                RETURN mgr.manager_id,\<newline>'' @
     ''                       warehouses_managed,\<newline>'' @
     ''                       ROUND(avg_risk, 3) as avg_warehouse_risk,\<newline>'' @
     ''                       ROUND(avg_shipments, 2) as avg_shipments_per_warehouse,\<newline>'' @
     ''                       total_risk_events,\<newline>'' @
     ''                       ROUND(total_risk_events * 1.0 / warehouses_managed, 2) as risk_events_per_warehouse\<newline>'' @
     ''                ORDER BY avg_risk ASC, avg_shipments DESC\<newline>'' @
     ''            ''"

definition template_location_risk_analysis :: string where
  "template_location_risk_analysis =
     ''\<newline>'' @
     ''                MATCH (w:Warehouse)-[:LOCATED_IN]->(rz:RegionalZone)-[:PART_OF]->(z:Zone)\<newline>'' @
     ''                OPTIONAL MATCH (w)-[:EXPERIENCED]->(r:RiskEvent)\<newline>'' @
     ''                WITH z.zone_name as zone, rz.regional_zone_name as region,\<newline>'' @
     ''                     COUNT(DISTINCT w) as warehouses_in_region,\<newline>'' @
     ''                     AVG(w.risk_score) as avg_risk,\<newline>'' @
     ''                     COUNT(r) as total_incidents,\<newline>'' @
     ''                     SUM(CASE WHEN w.location_type = 'Urban' THEN 1 ELSE 0 END) as urban_count,\<newline>'' @
     ''                     SUM(CASE WHEN w.location_type = 'Rural' THEN 1 ELSE 0 END) as rural_count\<newline>'' @
     ''                RETURN zone,\<newline>'' @
     ''                       region,\<newline>'' @
     ''                       warehouses_in_region,\<newline>'' @
     ''                       ROUND(avg_risk, 3) as avg_risk_score,\<newline>'' @
     ''                       total_incidents,\<newline>'' @
     ''                       ROUND(total_incidents * 1.0 / warehouses_in_region, 2) as incidents_per_warehouse,\<newline>'' @
     ''                       urban_count,\<newline>'' @
     ''                       rural_count\<newline>'' @
     ''                ORDER BY avg_risk DESC\<newline>'' @
     ''            ''"

definition template_temporal_risk_trends :: string where
  "template_temporal_risk_trends =
     ''\<newline>'' @
     ''                MATCH (w:Warehouse)-[:EXPERIENCED]->(r:RiskEvent)\<newline>'' @
     ''                WHERE r.time_period = 'l3m'\<newline>'' @
     ''                WITH r.event_type as event_type,\<newline>'' @
     ''                     COUNT(r) as recent_events,\<newline>'' @
     ''                     AVG(r.severity) as avg_severity,\<newline>'' @
     ''                     COUNT(DISTINCT w) as affected_warehouses\<newline>'' @
     ''                RETURN event_type,\<newline>'' @
     ''                       recent_events,\<newline>'' @
     ''                       ROUND(avg_severity, 2) as avg_severity,\<newline>'' @
     ''                       affected_warehouses,\<newline>'' @
     ''                       ROUND(recent_events * 1.0 / affected_warehouses, 2) as events_per_affected_warehouse\<newline>'' @
     ''                ORDER BY recent_events DESC\<newline>'' @
     ''                LIMIT 10\<newline>'' @
     ''            ''"

definition template_compliance_overview :: string where
  "template_compliance_overview =
     ''\<newline>'' @
     ''                MATCH (w:Warehouse)-[:SUBJECT_TO]->(c:Compliance)\<newline>'' @
     ''                OPTIONAL MATCH (w)-[:EXPERIENCED]->(r:RiskEvent)\<newline>'' @
     ''                WITH c, COUNT(DISTINCT w) as warehouses_under_compliance,\<newline>'' @
     ''                     AVG(w.risk_score) as avg_risk_under_compliance,\<newline>'' @
     ''                     COUNT(r) as total_risk_events,\<newline>'' @
     ''                     AVG(c.govt_checks_l3m) as avg_govt_checks,\<newline>'' @
     ''                     AVG(c.refill_requests_l3m) as avg_refill_requests\<newline>'' @
     ''                RETURN c.certificate_type,\<newline>'' @
     ''                       warehouses_under_compliance,\<newline>'' @
     ''                       ROUND(avg_risk_under_compliance, 3) as avg_risk_score,\<newline>'' @
     ''                       total_risk_events,\<newline>'' @
     ''                       ROUND(avg_govt_checks, 1) as avg_govt_checks_per_warehouse,\<newline>'' @
     ''                       ROUND(avg_refill_requests, 1) as avg_refill_requests_per_warehouse\<newline>'' @
     ''                ORDER BY avg_risk_under_compliance DESC\<newline>'' @
     ''            ''"

definition templates :: "(string \<times> string) list" where
  "templates =
    [(''high_risk_warehouses'', template_high_risk_warehouses),
     (''warehouse_risk_profile'', template_warehouse_risk_profile),
     (''zone_risk_comparison'', template_zone_risk_comparison),
     (''infrastructure_impact'', template_infrastructure_impact),
     (''manager_performance'', template_manager_performance),
     (''vulnerable_warehouses'', template_vulnerable_warehouses),
     (''breakdown_patterns'', template_breakdown_patterns),
     (''exploration'', template_exploration),
     (''capacity_analysis'', template_capacity_analysis),
     (''infrastructure_gaps'', template_infrastructure_gaps),
     (''market_risk_correlation'', template_market_risk_correlation),
     (''performance_metrics'', template_performance_metrics),
     (''location_risk_analysis'', template_location_risk_analysis),
     (''temporal_risk_trends'', template_temporal_risk_trends),
     (''compliance_overview'', template_compliance_overview)]"

text \<open>
  \<^verbatim>\<open>templates.get(intent)\<close>: a string key is looked up, any other hashable key is absent,
  and a list or a dictionary cannot be hashed. The parameter \<open>entities\<close> is not used.
\<close>

definition get_template_query :: "pyval \<Rightarrow> pyval \<Rightarrow> py_error + string option" where
  "get_template_query intent entities =
     (case intent of
        PStr s \<Rightarrow> Inr (map_of templates s)
      | PList xs \<Rightarrow> Inl TypeError
      | PDict d \<Rightarrow> Inl TypeError
      | _ \<Rightarrow> Inr None)"

subsection \<open>Validation and fallback\<close>

definition validate_cypher_syntax :: "string \<Rightarrow> bool" where
  "validate_cypher_syntax cypher_query =
     (if py_strip cypher_query = [] then False
      else if \<not> py_startswith (py_upper cypher_query) [''MATCH'', ''CREATE'', ''MERGE''] then False
      else if \<not> str_contains (py_upper cypher_query) ''RETURN'' then False
      else True)"

definition fallback_risk_identification :: string where
  "fallback_risk_identification =
     ''\<newline>'' @
     ''            MATCH (w:Warehouse)\<newline>'' @
     ''            WHERE w.risk_score > 0.5\<newline>'' @
     ''            OPTIONAL MATCH (w)-[:EXPERIENCED]->(r:RiskEvent)\<newline>'' @
     ''            RETURN w.warehouse_id, w.risk_score, w.location_type, COUNT(r) as risk_events\<newline>'' @
     ''            ORDER BY w.risk_score DESC\<newline>'' @
     ''            LIMIT 10\<newline>'' @
     ''            ''"

definition fallback_warehouse :: "string \<Rightarrow> string" where
  "fallback_warehouse warehouse_id =
     ''\<newline>'' @
     ''            MATCH (w:Warehouse {warehouse_id: '' @ [CHR 0x27] @
     warehouse_id @
     [CHR 0x27] @ ''})\<newline>'' @
     ''            OPTIONAL MATCH (w)-[:HAS_INFRASTRUCTURE]->(i:Infrastructure)\<newline>'' @
     ''            OPTIONAL MATCH (w)-[:EXPERIENCED]->(r:RiskEvent)\<newline>'' @
     ''            RETURN w.warehouse_id, w.risk_score, w.location_type,\<newline>'' @
     ''                   i.has_temp_regulation, i.has_electric_backup, i.is_flood_proof,\<newline>'' @
     ''                   COUNT(r) as risk_events\<newline>'' @
     ''            ''"

definition fallback_exploration :: string where
  "fallback_exploration =
     ''\<newline>'' @
     ''            MATCH (w:Warehouse)\<newline>'' @
     ''            OPTIONAL MATCH (w)-[:LOCATED_IN]->(rz:RegionalZone)-[:PART_OF]->(z:Zone)\<newline>'' @
     ''            RETURN w.warehouse_id, w.location_type, w.capacity_size, z.zone_name, w.risk_score\<newline>'' @
     ''            ORDER BY w.risk_score DESC\<newline>'' @
     ''            LIMIT 20\<newline>'' @
     ''            ''"

text \<open>The entities whose text mentions a warehouse identifier, in order.\<close>

definition wh_mentions :: "(pyval \<Rightarrow> string) \<Rightarrow> pyval list \<Rightarrow> pyval list" where
  "wh_mentions render es = filter (\<lambda>e. str_contains (py_str render e) ''WH_'') es"

text \<open>
  The condition of the \<^verbatim>\<open>elif\<close> evaluates \<^verbatim>\<open>any(...)\<close> only when \<^verbatim>\<open>'warehouse' in entities\<close>
  is false; the branch then takes the first mentioning entity, or \<^verbatim>\<open>'WH_0001'\<close>.
\<close>

definition generate_fallback_query :: "(pyval \<Rightarrow> string) \<Rightarrow> pydict \<Rightarrow> py_error + string" where
  "generate_fallback_query render understanding =
     (let intent = dict_get understanding ''intent'' (PStr ''exploration'');
          entities = dict_get understanding ''entities'' (PList [])
      in if intent = PStr ''risk_identification'' then Inr fallback_risk_identification
         else
           bind (py_in ''warehouse'' entities) (\<lambda>named.
           bind (if named then Inr True
                 else bind (py_iter entities) (\<lambda>es. Inr (wh_mentions render es \<noteq> []))) (\<lambda>cond.
           if cond then
             bind (py_iter entities) (\<lambda>es.
               let warehouse_id = (case wh_mentions render es of [] \<Rightarrow> PStr ''WH_0001'' | e # _ \<Rightarrow> e)
               in Inr (fallback_warehouse (py_str render warehouse_id)))
           else Inr fallback_exploration)))"

subsection \<open>\<^verbatim>\<open>QueryGenerator.process_query\<close>\<close>

definition understanding_defaults :: "(string \<times> pyval) list" where
  "understanding_defaults =
    [(''complexity'', PStr ''medium''),
     (''graph_pattern'', PStr ''simple''),
     (''data_focus'', PList [PStr ''warehouses'']),
     (''time_scope'', PStr ''current''),
     (''requires_comparison'', PBool False),
     (''requires_aggregation'', PBool False),
     (''requires_temporal_analysis'', PBool False),
     (''requires_geospatial_analysis'', PBool False),
     (''output_format'', PStr ''summary''),
     (''filters'', PList [])]"

text \<open>The ten \<^verbatim>\<open>setdefault\<close> calls, in the order of the source.\<close>

definition apply_defaults :: "pydict \<Rightarrow> pydict" where
  "apply_defaults understanding = fold (\<lambda>kv. setdefault (fst kv) (snd kv)) understanding_defaults understanding"

text \<open>
  The template branch returns early when a non-empty template is found. Otherwise the
  generated query is returned when it is non-empty and passes validation, and the fallback
  query in every other case.
\<close>

definition QueryGenerator_process_query ::
    "(pyval \<Rightarrow> string) \<Rightarrow> understanding_reply \<Rightarrow> completion \<Rightarrow> bool \<Rightarrow> py_error + (string \<times> pydict)" where
  "QueryGenerator_process_query render ureply creply use_templates =
     (let understanding = apply_defaults (understand_query ureply) in
      bind (if use_templates then
              get_template_query (dict_get understanding ''intent'' (PStr []))
                                 (dict_get understanding ''entities'' (PList []))
            else Inr None) (\<lambda>template.
      case (case template of None \<Rightarrow> None | Some t \<Rightarrow> if t \<noteq> [] then Some (py_strip t) else None) of
        Some query \<Rightarrow> Inr (query, understanding)
      | None \<Rightarrow>
          (let cypher_query = generate_cypher creply in
           if cypher_query \<noteq> [] \<and> validate_cypher_syntax cypher_query
           then Inr (cypher_query, understanding)
           else bind (generate_fallback_query render understanding) (\<lambda>fallback_query.
                  Inr (fallback_query, understanding)))))"

section \<open>Query executor (\<^verbatim>\<open>executor.py\<close>)\<close>

text \<open>
  The graph store answers a query text with its parameters by a sequence of records, or
  the driver raises. The core only reads the store, so its answers are a function; the
  calls made to it are the observable effect and are appended to a log that every
  operation takes and returns.
\<close>

type_synonym store = "string \<Rightarrow> pydict \<Rightarrow> py_error + pydict list"

type_synonym call = "string \<times> pydict"

text \<open>\<^verbatim>\<open>execute_query\<close> swallows every error of the store into an empty sequence.\<close>

text \<open>\<^verbatim>\<open>parameters or {}\<close> for the optional parameter dictionary.\<close>

definition params_of :: "pydict option \<Rightarrow> pydict" where
  "params_of parameters = (case parameters of None \<Rightarrow> [] | Some p \<Rightarrow> p)"

definition execute_query ::
    "store \<Rightarrow> string \<Rightarrow> pydict option \<Rightarrow> call list \<Rightarrow> pydict list \<times> call list" where
  "execute_query db cypher_query parameters calls =
     (let params = params_of parameters in
      ((case db cypher_query params of Inl e \<Rightarrow> [] | Inr records \<Rightarrow> records),
       calls @ [(cypher_query, params)]))"

definition related_entities_query :: string where
  "related_entities_query =
     ''\<newline>'' @
     ''        MATCH (w:Warehouse)\<newline>'' @
     ''        WHERE w.warehouse_id IN $warehouse_ids\<newline>'' @
     ''        OPTIONAL MATCH (w)-[:LOCATED_IN]->(rz:RegionalZone)-[:PART_OF]->(z:Zone)\<newline>'' @
     ''        OPTIONAL MATCH (w)-[:OPERATES_IN]->(m:MarketContext)\<newline>'' @
     ''        RETURN w.warehouse_id as warehouse_id,\<newline>'' @
     ''               rz.regional_zone_name as region,\<newline>'' @
     ''               z.zone_name as zone,\<newline>'' @
     ''               m.competitor_count as competitors,\<newline>'' @
     ''               m.retail_shop_count as retail_shops\<newline>'' @
     ''        ''"

definition risk_summary_query :: string where
  "risk_summary_query =
     ''\<newline>'' @
     ''        MATCH (w:Warehouse)-[:EXPERIENCED]->(r:RiskEvent)\<newline>'' @
     ''        WHERE w.warehouse_id IN $warehouse_ids\<newline>'' @
     ''        RETURN w.warehouse_id as warehouse_id,\<newline>'' @
     ''               r.event_type as event_type,\<newline>'' @
     ''               SUM(r.occurrence_count) as total_occurrences\<newline>'' @
     ''        ORDER BY total_occurrences DESC\<newline>'' @
     ''        ''"

definition get_related_entities :: "store \<Rightarrow> pyval list \<Rightarrow> call list \<Rightarrow> pydict list \<times> call list" where
  "get_related_entities db warehouse_ids calls =
     execute_query db related_entities_query (Some [(''warehouse_ids'', PList warehouse_ids)]) calls"

text \<open>
  The risk summary is a dictionary from event type to a running total. A key must be
  hashable, and keys are compared as Python compares them: numbers and booleans by value.
\<close>

definition hashable :: "pyval \<Rightarrow> bool" where
  "hashable v = (case v of PList xs \<Rightarrow> False | PDict d \<Rightarrow> False | _ \<Rightarrow> True)"

definition py_eq :: "pyval \<Rightarrow> pyval \<Rightarrow> bool" where
  "py_eq a b = (case (num_of a, num_of b) of (Some x, Some y) \<Rightarrow> x = y | _ \<Rightarrow> a = b)"

text \<open>
  \<^verbatim>\<open>if k not in summary: summary[k] = 0\<close> followed by \<^verbatim>\<open>summary[k] += x\<close>. The totals
  are added exactly, where Python rounds the sum of two floats; no property below reads
  the totals.
\<close>

fun add_occurrences :: "(pyval \<times> real) list \<Rightarrow> pyval \<Rightarrow> real \<Rightarrow> (pyval \<times> real) list" where
  "add_occurrences [] k x = [(k, 0 + x)]"
| "add_occurrences ((k', v) # rest) k x =
     (if py_eq k' k then (k', v + x) # rest else (k', v) # add_occurrences rest k x)"

fun summarise_risks :: "pydict list \<Rightarrow> (pyval \<times> real) list \<Rightarrow> py_error + (pyval \<times> real) list" where
  "summarise_risks [] summary = Inr summary"
| "summarise_risks (record # rest) summary =
     (case map_of record ''event_type'' of
        None \<Rightarrow> Inl KeyError
      | Some event_type \<Rightarrow>
          if \<not> hashable event_type then Inl TypeError
          else (case map_of record ''total_occurrences'' of
                  None \<Rightarrow> Inl KeyError
                | Some n \<Rightarrow>
                    (case num_of n of
                       None \<Rightarrow> Inl TypeError
                     | Some x \<Rightarrow> summarise_risks rest (add_occurrences summary event_type x))))"

definition get_risk_summary ::
    "store \<Rightarrow> pyval list \<Rightarrow> call list \<Rightarrow> (py_error + (pyval \<times> real) list) \<times> call list" where
  "get_risk_summary db warehouse_ids calls =
     (let (results, calls') =
            execute_query db risk_summary_query (Some [(''warehouse_ids'', PList warehouse_ids)]) calls
      in (summarise_risks results [], calls'))"

text \<open>The values that \<^verbatim>\<open>execute_with_context\<close> stores in the context dictionary.\<close>

datatype context_value = RelatedEntities "pydict list" | RiskSummary "(pyval \<times> real) list"

type_synonym query_context = "(string \<times> context_value) list"

text \<open>The dictionary with the keys \<^verbatim>\<open>results\<close>, \<^verbatim>\<open>context\<close> and \<^verbatim>\<open>summary\<close>.\<close>

record execution_result =
  exec_results :: "pydict list"
  exec_context :: query_context
  exec_summary :: string

text \<open>The values of \<^verbatim>\<open>record['warehouse_id']\<close> over the records that have the key.\<close>

definition extract_warehouse_ids :: "pydict list \<Rightarrow> pyval list" where
  "extract_warehouse_ids primary_results =
     concat (map (\<lambda>record. case map_of record ''warehouse_id'' of None \<Rightarrow> [] | Some v \<Rightarrow> [v])
                 primary_results)"

text \<open>
  \<^verbatim>\<open>_generate_results_summary\<close> averages and formats floating-point numbers; it is called
  on a non-empty sequence only and is taken as the parameter \<open>results_summary\<close>.
  An exception of the risk summary leaves \<^verbatim>\<open>execute_with_context\<close> after both follow-up
  queries have been issued.
\<close>

definition execute_with_context ::
    "store \<Rightarrow> (pydict list \<Rightarrow> py_error + string) \<Rightarrow> string \<Rightarrow> pydict option \<Rightarrow> call list
      \<Rightarrow> (py_error + execution_result) \<times> call list" where
  "execute_with_context db results_summary cypher_query parameters calls =
     (let (primary_results, calls1) = execute_query db cypher_query parameters calls in
      if primary_results = [] then
        (Inr \<lparr>exec_results = [], exec_context = [], exec_summary = ''No results found''\<rparr>, calls1)
      else
        let warehouse_ids = extract_warehouse_ids primary_results in
        if warehouse_ids \<noteq> [] then
          (let (related, calls2) = get_related_entities db (take 5 warehouse_ids) calls1;
               (risk, calls3) = get_risk_summary db (take 5 warehouse_ids) calls2
           in (bind risk (\<lambda>risk_summary.
               bind (results_summary primary_results) (\<lambda>summary.
                 Inr \<lparr>exec_results = primary_results,
                      exec_context = [(''related_entities'', RelatedEntities related),
                                      (''risk_summary'', RiskSummary risk_summary)],
                      exec_summary = summary\<rparr>)), calls3))
        else
          (bind (results_summary primary_results) (\<lambda>summary.
             Inr \<lparr>exec_results = primary_results, exec_context = [], exec_summary = summary\<rparr>), calls1))"

section \<open>Answer generator (\<^verbatim>\<open>answer_generator.py\<close>)\<close>

text \<open>\<^verbatim>\<open>v.get(k, default)\<close> and \<^verbatim>\<open>v[k]\<close> on a value that need not be a dictionary.\<close>

definition py_get :: "pyval \<Rightarrow> string \<Rightarrow> pyval \<Rightarrow> py_error + pyval" where
  "py_get v k dflt = (case v of PDict d \<Rightarrow> Inr (dict_get d k dflt) | _ \<Rightarrow> Inl AttributeError)"

definition py_item :: "pyval \<Rightarrow> string \<Rightarrow> py_error + pyval" where
  "py_item v k =
     (case v of
        PDict d \<Rightarrow> (case map_of d k of None \<Rightarrow> Inl KeyError | Some x \<Rightarrow> Inr x)
      | _ \<Rightarrow> Inl TypeError)"

text \<open>
  The loop over \<^verbatim>\<open>risks\<close>. An issue is a dictionary with the keys \<^verbatim>\<open>type\<close>,
  \<^verbatim>\<open>description\<close> and \<^verbatim>\<open>severity\<close>.
\<close>

fun recurring_issues :: "(pyval \<Rightarrow> string) \<Rightarrow> pyval list \<Rightarrow> py_error + pydict list" where
  "recurring_issues render [] = Inr []"
| "recurring_issues render (risk # rest) =
     bind (py_get risk ''count'' (PNum 0)) (\<lambda>count.
     bind (py_gt count 2) (\<lambda>recurring.
     bind (if recurring then
             bind (py_item risk ''type'') (\<lambda>t.
             bind (py_item risk ''count'') (\<lambda>c.
               Inr [[(''type'', PStr ''recurring_incident''),
                     (''description'',
                        PStr (''Multiple '' @ py_str render t @ '' incidents ('' @ py_str render c @ '')'')),
                     (''severity'', PStr ''high'')]]))
           else Inr []) (\<lambda>new.
     bind (recurring_issues render rest) (\<lambda>more. Inr (new @ more)))))"

text \<open>
  The parameter \<open>fmt3f\<close> is the text of \<^verbatim>\<open>{risk_score:.3f}\<close>, which is reached for
  numbers only.
\<close>

definition identify_issues ::
    "(pyval \<Rightarrow> string) \<Rightarrow> (pyval \<Rightarrow> string) \<Rightarrow> pydict \<Rightarrow> py_error + pydict list" where
  "identify_issues render fmt3f warehouse_data =
     (let risk_score = dict_get warehouse_data ''risk_score'' (PNum 0) in
      bind (py_gt risk_score 0.7) (\<lambda>risky.
      let issues1 = (if risky then
                       [[(''type'', PStr ''high_risk''),
                         (''description'', PStr (''High risk score of '' @ fmt3f risk_score)),
                         (''severity'', PStr ''critical'')]]
                     else []);
          infra = dict_get warehouse_data ''infrastructure'' (PDict [])
      in
      bind (py_get infra ''has_electric_backup'' PNone) (\<lambda>has_electric_backup.
      let issues2 = issues1 @ (if \<not> truthy has_electric_backup then
                       [[(''type'', PStr ''infrastructure''),
                         (''description'', PStr ''No electric backup system''),
                         (''severity'', PStr ''high'')]]
                     else [])
      in
      bind (py_get infra ''is_flood_proof'' PNone) (\<lambda>is_flood_proof.
      let issues3 = issues2 @ (if \<not> truthy is_flood_proof then
                       [[(''type'', PStr ''infrastructure''),
                         (''description'', PStr ''Not flood-proof''),
                         (''severity'', PStr ''medium'')]]
                     else []);
          risks = dict_get warehouse_data ''risks'' (PList [])
      in
      bind (py_iter risks) (\<lambda>rs.
      bind (recurring_issues render rs) (\<lambda>issues4.
        Inr (issues3 @ issues4)))))))"

section \<open>Pipeline orchestrator (\<^verbatim>\<open>pipeline.py\<close>)\<close>

text \<open>\<^verbatim>\<open>p or q\<close> on comparisons: \<open>q\<close> is evaluated only when \<open>p\<close> is false.\<close>

definition or_else :: "py_error + bool \<Rightarrow> py_error + bool \<Rightarrow> py_error + bool" where
  "or_else p q = bind p (\<lambda>b. if b then Inr True else q)"

text \<open>The incident count of the priority rule: \<^verbatim>\<open>risk_count\<close> when truthy, else \<^verbatim>\<open>incident_count\<close>.\<close>

definition priority_incident_count :: "pydict \<Rightarrow> pyval" where
  "priority_incident_count record =
     py_or (dict_get record ''risk_count'' (PNum 0)) (dict_get record ''incident_count'' (PNum 0))"

definition calculate_priority :: "pydict \<Rightarrow> py_error + string" where
  "calculate_priority record =
     (let risk_score = dict_get record ''risk_score'' (PNum 0);
          incident_count = priority_incident_count record
      in bind (or_else (py_gt risk_score 0.75) (py_gt incident_count 3)) (\<lambda>critical.
         if critical then Inr ''CRITICAL''
         else bind (or_else (py_gt risk_score 0.6) (py_gt incident_count 2)) (\<lambda>high.
         if high then Inr ''HIGH''
         else bind (py_gt risk_score 0.4) (\<lambda>medium.
         if medium then Inr ''MEDIUM'' else Inr ''LOW''))))"

definition suggest_actions :: "pydict \<Rightarrow> py_error + string list" where
  "suggest_actions record =
     (let risk_score = dict_get record ''risk_score'' (PNum 0);
          has_backup = dict_get record ''has_backup'' (PBool True);
          flood_proof = dict_get record ''flood_proof'' (PBool True);
          in_flood_zone = dict_get record ''in_flood_zone'' (PBool False)
      in bind (py_gt risk_score 0.7) (\<lambda>urgent.
         let actions1 = (if urgent then [''Immediate risk assessment required''] else []);
             actions2 = actions1 @ (if \<not> truthy has_backup then [''Install electric backup system''] else []);
             actions3 = actions2 @ (if \<not> truthy flood_proof \<and> truthy in_flood_zone
                                    then [''Implement flood protection measures''] else [])
         in bind (py_gt (dict_get record ''incident_count'' (PNum 0)) 2) (\<lambda>recurring.
         let actions4 = actions3 @ (if recurring then [''Investigate recurring incident patterns''] else [])
         in Inr (if actions4 = [] then [''Continue monitoring''] else actions4))))"

text \<open>The loop of \<^verbatim>\<open>_generate_warehouse_recommendations\<close> over \<^verbatim>\<open>results[:3]\<close>.\<close>

fun recommend_each :: "pydict list \<Rightarrow> py_error + pydict list" where
  "recommend_each [] = Inr []"
| "recommend_each (record # rest) =
     (let warehouse_id = dict_get record ''warehouse_id'' PNone in
      if truthy warehouse_id then
        bind (calculate_priority record) (\<lambda>priority.
        bind (suggest_actions record) (\<lambda>actions.
        bind (recommend_each rest) (\<lambda>recommendations.
          Inr ([(''warehouse_id'', warehouse_id),
                (''priority'', PStr priority),
                (''actions'', PList (map PStr actions))] # recommendations))))
      else recommend_each rest)"

definition generate_warehouse_recommendations :: "pydict list \<Rightarrow> py_error + pydict list" where
  "generate_warehouse_recommendations results = recommend_each (take 3 results)"

text \<open>The values of the top-level keys of a pipeline response.\<close>

datatype response_value =
    Flag bool
  | Text string
  | Records "pydict list"
  | Count nat
  | Context query_context
  | Understanding pydict
  | Recommendations "pydict list option"
  | Metadata pydict

type_synonym response = "(string \<times> response_value) list"

definition error_response :: "string \<Rightarrow> response" where
  "error_response error_message =
    [(''success'', Flag False),
     (''error'', Text error_message),
     (''answer'', Text (''I encountered an error processing your query: '' @ error_message)),
     (''results'', Records []),
     (''result_count'', Count 0),
     (''metadata'', Metadata
        [(''processing_time_seconds'', PNum 0),
         (''results_returned'', PNum 0),
         (''query_complexity'', PStr ''error''),
         (''graph_pattern'', PStr ''error'')])]"

definition no_results_response :: "string \<Rightarrow> pydict \<Rightarrow> response" where
  "no_results_response query understanding =
    [(''success'', Flag True),
     (''query'', Text query),
     (''answer'', Text ''No warehouses match your query criteria. Try broadening your search or adjusting the filters.''),
     (''results'', Records []),
     (''result_count'', Count 0),
     (''understanding'', Understanding understanding),
     (''suggestion'', Text (''Try queries like: '' @ [CHR 0x27] @ ''Show all warehouses'' @ [CHR 0x27] @
                           '' or '' @ [CHR 0x27] @ ''List warehouses by zone'' @ [CHR 0x27])),
     (''metadata'', Metadata
        [(''processing_time_seconds'', PNum 0),
         (''results_returned'', PNum 0),
         (''query_complexity'', dict_get understanding ''complexity'' (PStr ''unknown'')),
         (''graph_pattern'', dict_get understanding ''graph_pattern'' (PStr ''unknown''))])]"

text \<open>\<^verbatim>\<open>xs[:n]\<close>: a negative bound counts from the end.\<close>

definition py_slice_to :: "int \<Rightarrow> 'a list \<Rightarrow> 'a list" where
  "py_slice_to n xs = (if 0 \<le> n then take (nat n) xs else take (length xs - nat (- n)) xs)"

text \<open>
  What one request meets outside the core: the replies of the service to the two calls of
  the query generator, the graph store, the outcome of \<^verbatim>\<open>generate_answer\<close> (a service
  call behind text formatting, which may raise), the summary text of the executor, the
  texts of \<^verbatim>\<open>str\<close> on values and on exceptions, the measured time rounded to two decimals
  and \<^verbatim>\<open>Config.MAX_RESULTS\<close>.
\<close>

record env =
  env_understanding :: understanding_reply
  env_cypher :: completion
  env_store :: store
  env_answer :: "string \<Rightarrow> pydict list \<Rightarrow> query_context \<Rightarrow> pydict \<Rightarrow> py_error + string"
  env_summary :: "pydict list \<Rightarrow> py_error + string"
  env_str :: "pyval \<Rightarrow> string"
  env_exc_text :: "py_error \<Rightarrow> string"
  env_elapsed :: real
  env_max_results :: int

definition success_response ::
    "env \<Rightarrow> string \<Rightarrow> string \<Rightarrow> pydict list \<Rightarrow> query_context \<Rightarrow> pydict \<Rightarrow> string \<Rightarrow> pydict list option
      \<Rightarrow> response" where
  "success_response e user_query answer results ctx understanding cypher_query recommendations =
    [(''success'', Flag True),
     (''query'', Text user_query),
     (''answer'', Text answer),
     (''results'', Records (py_slice_to (env_max_results e) results)),
     (''result_count'', Count (length results)),
     (''context'', Context ctx),
     (''understanding'', Understanding understanding),
     (''cypher_query'', Text cypher_query),
     (''recommendations'', Recommendations recommendations),
     (''metadata'', Metadata
        [(''processing_time_seconds'', PNum (env_elapsed e)),
         (''results_returned'', PNum (real (length results))),
         (''query_complexity'', dict_get understanding ''complexity'' (PStr ''unknown'')),
         (''graph_pattern'', dict_get understanding ''graph_pattern'' (PStr ''unknown''))])]"

text \<open>
  The body of the \<^verbatim>\<open>try\<close> block; an exception anywhere in it becomes the error response
  in \<open>GraphRAGPipeline_process_query\<close>.
\<close>

definition pipeline_body :: "env \<Rightarrow> string \<Rightarrow> bool \<Rightarrow> bool \<Rightarrow> py_error + response" where
  "pipeline_body e user_query use_templates generate_recommendations =
     bind (QueryGenerator_process_query (env_str e) (env_understanding e) (env_cypher e) use_templates)
       (\<lambda>generated.
     let cypher_query = fst generated; understanding = snd generated in
     if cypher_query = [] then Inr (error_response ''Failed to generate valid query'')
     else
       bind (fst (execute_with_context (env_store e) (env_summary e) cypher_query None []))
         (\<lambda>execution_result.
       let results = exec_results execution_result; ctx = exec_context execution_result in
       if results = [] then Inr (no_results_response user_query understanding)
       else
         bind (env_answer e user_query results ctx understanding) (\<lambda>answer.
         bind (if generate_recommendations
                  \<and> dict_get understanding ''intent'' PNone = PStr ''risk_identification''
               then bind (generate_warehouse_recommendations results) (\<lambda>r. Inr (Some r))
               else Inr None) (\<lambda>recommendations.
           Inr (success_response e user_query answer results ctx understanding cypher_query
                  recommendations)))))"

definition GraphRAGPipeline_process_query :: "env \<Rightarrow> string \<Rightarrow> bool \<Rightarrow> bool \<Rightarrow> response" where
  "GraphRAGPipeline_process_query e user_query use_templates generate_recommendations =
     (case pipeline_body e user_query use_templates generate_recommendations of
        Inl exc \<Rightarrow> error_response (env_exc_text e exc)
      | Inr response \<Rightarrow> response)"

section \<open>Vocabulary of the stated properties\<close>

text \<open>
  The definitions of this section do not come from the source: they name the notions in
  which the properties of the pipeline are stated.
\<close>

subsection \<open>The documented understanding record\<close>





subsection \<open>Well-formed query text\<close>

text \<open>
  A query starts with one of the three keywords in any letter case, and it has a
  \<^verbatim>\<open>RETURN\<close> clause when the word occurs in it in any letter case.
\<close>

definition starts_with_keyword :: "string \<Rightarrow> bool" where
  "starts_with_keyword q =
     list_ex (\<lambda>k. py_upper (take (length k) q) = k) [''MATCH'', ''CREATE'', ''MERGE'']"

definition has_return_clause :: "string \<Rightarrow> bool" where
  "has_return_clause q = sublist ''RETURN'' (py_upper q)"

subsection \<open>Result records and recommendations\<close>

text \<open>
  The priority labels. A result record has numeric fields when the three values that the
  priority and action rules compare with numbers are numbers (or booleans, which Python
  compares as 0 and 1) or absent. A record is identified when its \<^verbatim>\<open>warehouse_id\<close> is
  truthy, and a recommendation belongs to a record when it holds the identifier, the
  priority and the actions computed from that record.
\<close>

definition priorities :: "string list" where
  "priorities = [''CRITICAL'', ''HIGH'', ''MEDIUM'', ''LOW'']"

definition numeric_fields :: "pydict \<Rightarrow> bool" where
  "numeric_fields record =
     (num_of (dict_get record ''risk_score'' (PNum 0)) \<noteq> None
      \<and> num_of (priority_incident_count record) \<noteq> None
      \<and> num_of (dict_get record ''incident_count'' (PNum 0)) \<noteq> None)"

definition identified :: "pydict \<Rightarrow> bool" where
  "identified record = truthy (dict_get record ''warehouse_id'' PNone)"

definition recommendation_of :: "pydict \<Rightarrow> pydict \<Rightarrow> bool" where
  "recommendation_of rec record =
     (case (calculate_priority record, suggest_actions record) of
        (Inr priority, Inr actions) \<Rightarrow>
          rec = [(''warehouse_id'', dict_get record ''warehouse_id'' PNone),
                 (''priority'', PStr priority),
                 (''actions'', PList (map PStr actions))]
      | _ \<Rightarrow> False)"

subsection \<open>Issues of a warehouse\<close>

text \<open>
  The severity of an issue record; a risk entry that recurs (its count exceeds two); and a
  well-formed risk entry: a dictionary with a type and a count that is a number or absent.
\<close>

definition severity :: "pydict \<Rightarrow> pyval" where
  "severity issue = dict_get issue ''severity'' PNone"

definition recurring :: "pyval \<Rightarrow> bool" where
  "recurring risk =
     (case risk of
        PDict d \<Rightarrow> (case num_of (dict_get d ''count'' (PNum 0)) of Some c \<Rightarrow> 2 < c | None \<Rightarrow> False)
      | _ \<Rightarrow> False)"

definition risk_entry :: "pyval \<Rightarrow> bool" where
  "risk_entry risk =
     (case risk of
        PDict d \<Rightarrow> num_of (dict_get d ''count'' (PNum 0)) \<noteq> None \<and> has_key d ''type''
      | _ \<Rightarrow> False)"

subsection \<open>Follow-up queries\<close>

text \<open>
  The two follow-up calls over a list of identifiers, and the first \<open>n\<close> distinct
  identifiers of a list in the order of their first appearance.
\<close>

definition followup_calls :: "pyval list \<Rightarrow> call list" where
  "followup_calls ids =
     [(related_entities_query, [(''warehouse_ids'', PList ids)]),
      (risk_summary_query, [(''warehouse_ids'', PList ids)])]"

fun distinct_in_order :: "'a list \<Rightarrow> 'a list" where
  "distinct_in_order [] = []"
| "distinct_in_order (x # xs) = x # filter (\<lambda>y. y \<noteq> x) (distinct_in_order xs)"

definition first_distinct :: "nat \<Rightarrow> 'a list \<Rightarrow> 'a list" where
  "first_distinct n ids = take n (distinct_in_order ids)"

subsection \<open>Response shapes\<close>

text \<open>
  The top-level keys of the three kinds of response, and the keys of the metadata block of
  a response.
\<close>

definition success_keys :: "string list" where
  "success_keys = [''success'', ''query'', ''answer'', ''results'', ''result_count'', ''context'',
                   ''understanding'', ''cypher_query'', ''recommendations'', ''metadata'']"

definition error_keys :: "string list" where
  "error_keys = [''success'', ''error'', ''answer'', ''results'', ''result_count'', ''metadata'']"

definition no_results_keys :: "string list" where
  "no_results_keys = [''success'', ''query'', ''answer'', ''results'', ''result_count'',
                      ''understanding'', ''suggestion'', ''metadata'']"

definition metadata_keys :: "response \<Rightarrow> string list" where
  "metadata_keys r = (case map_of r ''metadata'' of Some (Metadata m) \<Rightarrow> map fst m | _ \<Rightarrow> [])"

section \<open>Sample inputs\<close>

text \<open>
  Concrete replies of the service, stores, records and environments at which the
  theorems below are evaluated.
\<close>

definition sample_render :: "pyval \<Rightarrow> string" where
  "sample_render v = ''<value>''"

definition sample_summary :: "pydict list \<Rightarrow> py_error + string" where
  "sample_summary rs = Inr ''summary''"

definition reply_risk_identification :: understanding_reply where
  "reply_risk_identification = Parsed (PDict [(''intent'', PStr ''risk_identification'')])"

definition reply_unhashable_intent :: understanding_reply where
  "reply_unhashable_intent = Parsed (PDict [(''intent'', PList [])])"

definition reply_null_entities :: understanding_reply where
  "reply_null_entities = Parsed (PDict [(''intent'', PStr ''general_lookup''), (''entities'', PNone)])"


definition env_unhashable_intent :: env where
  "env_unhashable_intent =
     \<lparr>env_understanding = reply_unhashable_intent,
      env_cypher = CallFailed,
      env_store = (\<lambda>q p. Inr []),
      env_answer = (\<lambda>q rs c u. Inr ''answer''),
      env_summary = (\<lambda>rs. Inr ''summary''),
      env_str = sample_render,
      env_exc_text = (\<lambda>exc. ''unhashable type''),
      env_elapsed = 0,
      env_max_results = 10\<rparr>"

definition env_empty_store :: env where
  "env_empty_store =
     \<lparr>env_understanding = NotJSON,
      env_cypher = CallFailed,
      env_store = (\<lambda>q p. Inr []),
      env_answer = (\<lambda>q rs c u. Inr ''answer''),
      env_summary = (\<lambda>rs. Inr ''summary''),
      env_str = sample_render,
      env_exc_text = (\<lambda>exc. ''error''),
      env_elapsed = 0,
      env_max_results = 10\<rparr>"

definition duplicate_results :: "pydict list" where
  "duplicate_results =
    [[(''warehouse_id'', PStr ''WH_0001'')], [(''warehouse_id'', PStr ''WH_0001'')],
     [(''warehouse_id'', PStr ''WH_0002'')], [(''warehouse_id'', PStr ''WH_0003'')],
     [(''warehouse_id'', PStr ''WH_0004'')], [(''warehouse_id'', PStr ''WH_0005'')]]"

definition store_with_duplicates :: store where
  "store_with_duplicates q p = (if p = [] then Inr duplicate_results else Inr [])"

definition distinct_results :: "pydict list" where
  "distinct_results =
    [[(''warehouse_id'', PStr ''WH_0001'')], [(''warehouse_id'', PStr ''WH_0002'')]]"

definition store_with_distinct :: store where
  "store_with_distinct q p = (if p = [] then Inr distinct_results else Inr [])"

definition sample_results :: "pydict list" where
  "sample_results =
    [[(''warehouse_id'', PStr ''WH_0001''), (''risk_score'', PNum 0.8)],
     [(''risk_score'', PNum 0.9)],
     [(''warehouse_id'', PStr ''WH_0003''), (''risk_score'', PNum 0.1)],
     [(''warehouse_id'', PStr ''WH_0004''), (''risk_score'', PNum 0.7)]]"

definition sample_warehouse :: pydict where
  "sample_warehouse =
    [(''risk_score'', PNum 0.71),
     (''infrastructure'', PDict [(''has_electric_backup'', PBool False), (''is_flood_proof'', PBool False)]),
     (''risks'', PList [PDict [(''type'', PStr ''breakdown''), (''count'', PNum 3)]])]"


section \<open>Basic facts\<close>

lemma py_gt_num: "num_of v = Some x \<Longrightarrow> py_gt v c = Inr (c < x)"
  by (simp add: py_gt_def)

lemma upper_char_space: "isspace c \<Longrightarrow> upper_char c = c"
  by (auto simp: isspace_def upper_char_def)

lemma isspace_not_letter:
  "isspace c \<Longrightarrow> c \<noteq> CHR ''M'' \<and> c \<noteq> CHR ''C''"
  by (auto simp: isspace_def)

lemma isspace_newline: "isspace (CHR ''\<newline>'')"
  by (simp add: isspace_def)

lemma prefix_iff_take: "prefix k ys \<longleftrightarrow> take (length k) ys = k"
proof
  assume "prefix k ys"
  then obtain zs where "ys = k @ zs" by (auto simp: prefix_def)
  then show "take (length k) ys = k" by simp
next
  assume "take (length k) ys = k"
  then have "k @ drop (length k) ys = ys" by (metis append_take_drop_id)
  then show "prefix k ys" by (metis prefixI)
qed

lemma str_contains_sublist: "str_contains s sub \<longleftrightarrow> sublist sub s"
  by (induction s) (auto simp: sublist_Cons_right)

lemma prefix_upper_take: "prefix k (py_upper q) \<longleftrightarrow> py_upper (take (length k) q) = k"
  by (simp only: prefix_iff_take py_upper_def take_map)

lemma py_startswith_keyword:
  "py_startswith (py_upper q) [''MATCH'', ''CREATE'', ''MERGE''] \<longleftrightarrow> starts_with_keyword q"
  unfolding py_startswith_def starts_with_keyword_def
  by (simp only: prefix_upper_take)

lemma validate_cypher_syntax_iff:
  "validate_cypher_syntax q \<longleftrightarrow> py_strip q \<noteq> [] \<and> starts_with_keyword q \<and> has_return_clause q"
  unfolding validate_cypher_syntax_def py_startswith_keyword str_contains_sublist has_return_clause_def
  by (simp only: if_False if_True split: if_splits) blast

lemma validate_rejects_leading_space:
  assumes "isspace c"
  shows "\<not> validate_cypher_syntax (c # cs)"
  using isspace_not_letter [OF assms] upper_char_space [OF assms]
  by (auto simp: validate_cypher_syntax_def py_startswith_def py_upper_def)

lemma py_strip_head: "py_strip s \<noteq> [] \<Longrightarrow> \<not> isspace (hd (py_strip s))"
  unfolding py_strip_def py_lstrip_def by (rule hd_dropWhile)




lemma apply_defaults_default:
  "apply_defaults (default_understanding s) = default_understanding s"
  by (simp add: apply_defaults_def understanding_defaults_def default_understanding_def
      setdefault_def has_key_def)



section \<open>Fallback queries and validation\<close>

lemma fallback_texts_head:
  "hd fallback_risk_identification = CHR ''\<newline>''"
  "hd (fallback_warehouse w) = CHR ''\<newline>''"
  "hd fallback_exploration = CHR ''\<newline>''"
  "fallback_risk_identification \<noteq> []"
  "fallback_warehouse w \<noteq> []"
  "fallback_exploration \<noteq> []"
  by (simp_all add: fallback_risk_identification_def fallback_warehouse_def fallback_exploration_def)

lemma fallback_query_head:
  assumes "generate_fallback_query render understanding = Inr q"
  shows "q \<noteq> [] \<and> hd q = CHR ''\<newline>''"
  using assms fallback_texts_head
  by (auto simp: generate_fallback_query_def bind_def Let_def split: if_splits sum.splits)

lemma fallback_returns:
  assumes "py_iter (dict_get u ''entities'' (PList [])) = Inr es"
  shows "\<exists>q. generate_fallback_query render u = Inr q"
  using assms
  by (cases "dict_get u ''entities'' (PList [])")
     (auto simp: generate_fallback_query_def Let_def bind_def)

lemma fallback_returns_risk:
  assumes "dict_get u ''intent'' (PStr ''exploration'') = PStr ''risk_identification''"
  shows "generate_fallback_query render u = Inr fallback_risk_identification"
  using assms by (simp add: generate_fallback_query_def Let_def)

lemma fallback_raises:
  assumes "dict_get u ''intent'' (PStr ''exploration'') \<noteq> PStr ''risk_identification''"
      and "\<forall>es. py_iter (dict_get u ''entities'' (PList [])) \<noteq> Inr es"
  shows "generate_fallback_query render u = Inl TypeError"
  using assms
  by (cases "dict_get u ''entities'' (PList [])")
     (auto simp: generate_fallback_query_def Let_def bind_def)

lemma generate_cypher_stripped:
  "generate_cypher creply \<noteq> [] \<Longrightarrow> \<not> isspace (hd (generate_cypher creply))"
  by (cases creply) (simp_all add: generate_cypher_def py_strip_head)

lemma fallback_differs_from_candidate:
  assumes "generate_fallback_query render u = Inr q"
  shows "q \<noteq> generate_cypher creply"
proof
  assume eq: "q = generate_cypher creply"
  from fallback_query_head [OF assms] have "q \<noteq> []" and "isspace (hd q)"
    by (simp_all add: isspace_newline)
  with eq generate_cypher_stripped [of creply] show False by simp
qed

text \<open>
  Claim C1 says that the text produced by \<^verbatim>\<open>_generate_fallback_query\<close> passes
  \<^verbatim>\<open>_validate_cypher_syntax\<close> for every understanding record. The code does the opposite:
  each of the three fallback texts is a triple-quoted literal that begins with a line break
  and indentation, it is returned without \<^verbatim>\<open>strip\<close>, and the validator tests
  \<^verbatim>\<open>startswith\<close> on the text as it is. So whatever query the fallback generator returns,
  the validator rejects it.
\<close>

theorem fallback_query_fails_validation:
  assumes "generate_fallback_query render understanding = Inr q"
  shows "\<not> validate_cypher_syntax q"
proof -
  from fallback_query_head [OF assms] obtain cs where "q = CHR ''\<newline>'' # cs"
    by (cases q) auto
  then show ?thesis
    using validate_rejects_leading_space [OF isspace_newline] by simp
qed

theorem fallback_query_fails_validation_witness:
  "generate_fallback_query (\<lambda>v. []) [] = Inr fallback_exploration
   \<and> \<not> validate_cypher_syntax fallback_exploration"
proof -
  have h: "generate_fallback_query (\<lambda>v. []) [] = Inr fallback_exploration"
    by (simp add: generate_fallback_query_def dict_get_def bind_def wh_mentions_def)
  show ?thesis
    using h fallback_query_fails_validation [OF h] by simp
qed

text \<open>
  The same texts pass once they are stripped, as the template branch strips its text.
\<close>

lemma stripped_fallback_exploration_valid: "validate_cypher_syntax (py_strip fallback_exploration)"
  by code_simp

lemma stripped_fallback_risk_identification_valid:
  "validate_cypher_syntax (py_strip fallback_risk_identification)"
  by code_simp

section \<open>The understanding record returned by the query generator\<close>




lemma not_json_falls_back:
  "QueryGenerator_process_query sample_render NotJSON CallFailed True
     = Inr (fallback_exploration, default_understanding ''general_query'')"
proof -
  have u: "apply_defaults (understand_query NotJSON) = default_understanding ''general_query''"
    by (simp add: understand_query_def apply_defaults_default)
  have t: "get_template_query (dict_get (default_understanding ''general_query'') ''intent'' (PStr []))
             (dict_get (default_understanding ''general_query'') ''entities'' (PList [])) = Inr None"
    by (simp add: default_understanding_def dict_get_def get_template_query_def templates_def)
  have f: "generate_fallback_query sample_render (default_understanding ''general_query'')
             = Inr fallback_exploration"
    by (simp add: generate_fallback_query_def default_understanding_def dict_get_def bind_def wh_mentions_def)
  show ?thesis
    unfolding QueryGenerator_process_query_def Let_def u
    by (simp add: t f bind_def generate_cypher_def)
qed

lemma unhashable_intent_raises:
  "QueryGenerator_process_query sample_render reply_unhashable_intent CallFailed True = Inl TypeError"
  by (simp add: QueryGenerator_process_query_def reply_unhashable_intent_def understand_query_def
      apply_defaults_def understanding_defaults_def setdefault_def has_key_def dict_get_def
      get_template_query_def bind_def)




section \<open>Rejected candidates are replaced by the fallback\<close>

lemma null_entities_understanding:
  "apply_defaults (understand_query reply_null_entities)
     = [(''intent'', PStr ''general_lookup''), (''entities'', PNone)] @ understanding_defaults"
  by (simp add: reply_null_entities_def apply_defaults_def understand_query_def
      understanding_defaults_def setdefault_def has_key_def)

lemma select_text_cleaned:
  "generate_cypher (Content ''SELECT * FROM warehouses'') = ''SELECT * FROM warehouses''"
  by code_simp

lemma select_text_no_keyword: "\<not> starts_with_keyword ''SELECT * FROM warehouses''"
  by (simp add: starts_with_keyword_def py_upper_def upper_char_def)

lemma general_lookup_no_template:
  "get_template_query (PStr ''general_lookup'') entities = Inr None"
  by (simp add: get_template_query_def templates_def)

text \<open>
  Claim C3, as amended. Let the candidate be the query text that \<^verbatim>\<open>generate_cypher\<close>
  hands to the validator, on the path where no template was used. If the candidate does
  not start with MATCH, CREATE or MERGE in any letter case, or has no RETURN clause, then
  the validator rejects it, and \<^verbatim>\<open>process_query\<close> never returns the candidate: it ends
  as the fallback generator ends. It returns the fallback query when the intent is
  \<^verbatim>\<open>risk_identification\<close> or the entities of the understanding record can be iterated
  (a list, a string or an object, or absent), and it raises \<^verbatim>\<open>TypeError\<close> in every
  other case.
\<close>

theorem invalid_candidate_triggers_fallback:
  assumes "u = apply_defaults (understand_query ureply)"
      and "\<not> use_templates
           \<or> get_template_query (dict_get u ''intent'' (PStr [])) (dict_get u ''entities'' (PList []))
               = Inr None"
      and "generate_cypher creply = candidate"
      and "\<not> starts_with_keyword candidate \<or> \<not> has_return_clause candidate"
  shows "\<not> validate_cypher_syntax candidate
       \<and> QueryGenerator_process_query render ureply creply use_templates
           = bind (generate_fallback_query render u) (\<lambda>q. Inr (q, u))
       \<and> (\<forall>q u'. QueryGenerator_process_query render ureply creply use_templates = Inr (q, u')
             \<longrightarrow> q \<noteq> candidate)
       \<and> (dict_get u ''intent'' (PStr ''exploration'') = PStr ''risk_identification''
            \<or> (\<exists>es. py_iter (dict_get u ''entities'' (PList [])) = Inr es) \<longrightarrow>
            (\<exists>q. generate_fallback_query render u = Inr q
                \<and> QueryGenerator_process_query render ureply creply use_templates = Inr (q, u)))
       \<and> (dict_get u ''intent'' (PStr ''exploration'') \<noteq> PStr ''risk_identification''
            \<and> (\<forall>es. py_iter (dict_get u ''entities'' (PList [])) \<noteq> Inr es) \<longrightarrow>
            QueryGenerator_process_query render ureply creply use_templates = Inl TypeError)"
proof -
  have invalid: "\<not> validate_cypher_syntax candidate"
    using assms(4) by (auto simp: validate_cypher_syntax_iff)
  have lookup: "(if use_templates then get_template_query (dict_get u ''intent'' (PStr []))
                   (dict_get u ''entities'' (PList [])) else Inr None) = Inr None"
    using assms(2) by auto
  have run: "QueryGenerator_process_query render ureply creply use_templates
           = bind (generate_fallback_query render u) (\<lambda>q. Inr (q, u))"
    unfolding QueryGenerator_process_query_def Let_def assms(1) [symmetric] lookup
    using invalid assms(3) by (simp add: bind_def)
  have differs: "\<forall>q u'. QueryGenerator_process_query render ureply creply use_templates = Inr (q, u')
             \<longrightarrow> q \<noteq> candidate"
  proof (intro allI impI)
    fix q u'
    assume "QueryGenerator_process_query render ureply creply use_templates = Inr (q, u')"
    with run have "generate_fallback_query render u = Inr q"
      by (auto simp: bind_def split: sum.splits)
    from fallback_differs_from_candidate [OF this, of creply] assms(3)
    show "q \<noteq> candidate" by simp
  qed
  have returns: "dict_get u ''intent'' (PStr ''exploration'') = PStr ''risk_identification''
            \<or> (\<exists>es. py_iter (dict_get u ''entities'' (PList [])) = Inr es) \<longrightarrow>
            (\<exists>q. generate_fallback_query render u = Inr q
                \<and> QueryGenerator_process_query render ureply creply use_templates = Inr (q, u))"
  proof
    assume "dict_get u ''intent'' (PStr ''exploration'') = PStr ''risk_identification''
            \<or> (\<exists>es. py_iter (dict_get u ''entities'' (PList [])) = Inr es)"
    then have "\<exists>q. generate_fallback_query render u = Inr q"
      using fallback_returns_risk [of u render] fallback_returns [of u _ render] by blast
    then obtain q where "generate_fallback_query render u = Inr q" by blast
    with run show "\<exists>q. generate_fallback_query render u = Inr q
                \<and> QueryGenerator_process_query render ureply creply use_templates = Inr (q, u)"
      by (simp add: bind_def)
  qed
  have raises: "dict_get u ''intent'' (PStr ''exploration'') \<noteq> PStr ''risk_identification''
            \<and> (\<forall>es. py_iter (dict_get u ''entities'' (PList [])) \<noteq> Inr es) \<longrightarrow>
            QueryGenerator_process_query render ureply creply use_templates = Inl TypeError"
  proof
    assume a: "dict_get u ''intent'' (PStr ''exploration'') \<noteq> PStr ''risk_identification''
            \<and> (\<forall>es. py_iter (dict_get u ''entities'' (PList [])) \<noteq> Inr es)"
    then have "generate_fallback_query render u = Inl TypeError"
      using fallback_raises [of u render] by blast
    with run show "QueryGenerator_process_query render ureply creply use_templates = Inl TypeError"
      by (simp add: bind_def)
  qed
  from invalid run differs returns raises show ?thesis by blast
qed

theorem invalid_candidate_triggers_fallback_witness:
  "\<not> validate_cypher_syntax ''SELECT * FROM warehouses''
   \<and> QueryGenerator_process_query sample_render reply_risk_identification
         (Content ''SELECT * FROM warehouses'') True
       = Inr (fallback_risk_identification,
              [(''intent'', PStr ''risk_identification'')] @ understanding_defaults)
   \<and> QueryGenerator_process_query sample_render reply_null_entities
         (Content ''SELECT * FROM warehouses'') True
       = Inl TypeError"
proof -
  let ?u = "[(''intent'', PStr ''risk_identification'')] @ understanding_defaults"
  let ?v = "[(''intent'', PStr ''general_lookup''), (''entities'', PNone)] @ understanding_defaults"
  have h1: "?u = apply_defaults (understand_query reply_risk_identification)"
    by (simp add: reply_risk_identification_def apply_defaults_def understand_query_def
        understanding_defaults_def setdefault_def has_key_def)
  have h2: "\<not> True
            \<or> get_template_query (dict_get ?u ''intent'' (PStr [])) (dict_get ?u ''entities'' (PList []))
                = Inr None"
    by (simp add: get_template_query_def templates_def dict_get_def understanding_defaults_def)
  note h3 = select_text_cleaned
  have h4: "\<not> starts_with_keyword ''SELECT * FROM warehouses''
            \<or> \<not> has_return_clause ''SELECT * FROM warehouses''"
    using select_text_no_keyword by simp
  have i: "dict_get ?u ''intent'' (PStr ''exploration'') = PStr ''risk_identification''"
    by (simp add: dict_get_def)
  have g1: "?v = apply_defaults (understand_query reply_null_entities)"
    by (simp add: null_entities_understanding)
  have g2: "\<not> True
            \<or> get_template_query (dict_get ?v ''intent'' (PStr [])) (dict_get ?v ''entities'' (PList []))
                = Inr None"
    by (simp add: dict_get_def general_lookup_no_template)
  have j: "dict_get ?v ''intent'' (PStr ''exploration'') \<noteq> PStr ''risk_identification''
           \<and> (\<forall>es. py_iter (dict_get ?v ''entities'' (PList [])) \<noteq> Inr es)"
    by (simp add: dict_get_def)
  have a: "\<not> validate_cypher_syntax ''SELECT * FROM warehouses''
     \<and> (\<exists>q. generate_fallback_query sample_render ?u = Inr q
          \<and> QueryGenerator_process_query sample_render reply_risk_identification
               (Content ''SELECT * FROM warehouses'') True = Inr (q, ?u))"
    using invalid_candidate_triggers_fallback [OF h1 h2 h3 h4, of sample_render] i by blast
  have b: "QueryGenerator_process_query sample_render reply_null_entities
         (Content ''SELECT * FROM warehouses'') True = Inl TypeError"
    using invalid_candidate_triggers_fallback [OF g1 g2 h3 h4, of sample_render] j by blast
  from a b fallback_returns_risk [OF i, of sample_render] show ?thesis by auto
qed

text \<open>
  The claim as stated fails: with a rejected candidate and a reply whose entities are null,
  the test \<^verbatim>\<open>'warehouse' in entities\<close> of the fallback generator raises
  \<^verbatim>\<open>TypeError\<close>, and no fallback query is returned.
\<close>

theorem invalid_candidate_raises_counterexample:
  "generate_cypher (Content ''SELECT * FROM warehouses'') = ''SELECT * FROM warehouses''
   \<and> \<not> starts_with_keyword ''SELECT * FROM warehouses''
   \<and> get_template_query
        (dict_get (apply_defaults (understand_query reply_null_entities)) ''intent'' (PStr []))
        (dict_get (apply_defaults (understand_query reply_null_entities)) ''entities'' (PList []))
      = Inr None
   \<and> QueryGenerator_process_query sample_render reply_null_entities
        (Content ''SELECT * FROM warehouses'') True
      = Inl TypeError"
proof -
  have t: "get_template_query
        (dict_get (apply_defaults (understand_query reply_null_entities)) ''intent'' (PStr []))
        (dict_get (apply_defaults (understand_query reply_null_entities)) ''entities'' (PList []))
      = Inr None"
    by (simp add: null_entities_understanding dict_get_def general_lookup_no_template)
  have v: "\<not> validate_cypher_syntax ''SELECT * FROM warehouses''"
    using select_text_no_keyword by (simp add: validate_cypher_syntax_iff)
  have f: "generate_fallback_query sample_render
             (apply_defaults (understand_query reply_null_entities)) = Inl TypeError"
    by (simp add: null_entities_understanding generate_fallback_query_def dict_get_def bind_def)
  have r: "QueryGenerator_process_query sample_render reply_null_entities
        (Content ''SELECT * FROM warehouses'') True = Inl TypeError"
    unfolding QueryGenerator_process_query_def Let_def
    by (simp add: t select_text_cleaned v f bind_def)
  from select_text_cleaned select_text_no_keyword t r show ?thesis by blast
qed

section \<open>Priority and actions of a result record\<close>

lemma calculate_priority_range:
  assumes "calculate_priority record = Inr p"
  shows "p \<in> set priorities"
  using assms
  by (auto simp: calculate_priority_def priorities_def Let_def bind_def or_else_def
           split: sum.splits if_splits)

lemma suggest_actions_nonempty:
  assumes "suggest_actions record = Inr actions"
  shows "actions \<noteq> []"
  using assms
  by (auto simp: suggest_actions_def Let_def bind_def split: sum.splits if_splits)

lemma numeric_fields_priority:
  assumes "numeric_fields record"
  shows "\<exists>p. calculate_priority record = Inr p"
  using assms
  by (auto simp: numeric_fields_def calculate_priority_def Let_def bind_def or_else_def py_gt_def)

lemma numeric_fields_actions:
  assumes "numeric_fields record"
  shows "\<exists>a. suggest_actions record = Inr a"
  using assms
  by (auto simp: numeric_fields_def suggest_actions_def Let_def bind_def py_gt_def)

text \<open>
  Claim C4, as amended. For a result record whose risk score and incident count are
  numbers, the priority is CRITICAL iff the risk score exceeds 0.75 or the incident count
  exceeds 3; else HIGH iff the risk score exceeds 0.6 or the incident count exceeds 2;
  else MEDIUM iff the risk score exceeds 0.4; else LOW. Here the incident count is the
  field \<^verbatim>\<open>risk_count\<close> of the record when that is truthy, and the field
  \<^verbatim>\<open>incident_count\<close> otherwise; an absent field reads as 0. For a record with no
  other field, a risk score of 0.75 gives HIGH, 0.751 gives CRITICAL, an
  \<^verbatim>\<open>incident_count\<close> of 3 gives HIGH and of 4 gives CRITICAL.
\<close>

theorem calculate_priority_rule:
  assumes "num_of (dict_get record ''risk_score'' (PNum 0)) = Some risk_score"
      and "num_of (if truthy (dict_get record ''risk_count'' (PNum 0))
                   then dict_get record ''risk_count'' (PNum 0)
                   else dict_get record ''incident_count'' (PNum 0)) = Some incident_count"
  shows "calculate_priority record =
           Inr (if 0.75 < risk_score \<or> 3 < incident_count then ''CRITICAL''
                else if 0.6 < risk_score \<or> 2 < incident_count then ''HIGH''
                else if 0.4 < risk_score then ''MEDIUM''
                else ''LOW'')
         \<and> calculate_priority [(''risk_score'', PNum 0.75)] = Inr ''HIGH''
         \<and> calculate_priority [(''risk_score'', PNum 0.751)] = Inr ''CRITICAL''
         \<and> calculate_priority [(''incident_count'', PNum 3)] = Inr ''HIGH''
         \<and> calculate_priority [(''incident_count'', PNum 4)] = Inr ''CRITICAL''"
proof -
  have count: "num_of (priority_incident_count record) = Some incident_count"
    using assms(2) by (simp add: priority_incident_count_def py_or_def)
  have general: "calculate_priority record =
           Inr (if 0.75 < risk_score \<or> 3 < incident_count then ''CRITICAL''
                else if 0.6 < risk_score \<or> 2 < incident_count then ''HIGH''
                else if 0.4 < risk_score then ''MEDIUM''
                else ''LOW'')"
    using assms(1) count
    by (simp add: calculate_priority_def Let_def or_else_def bind_def py_gt_num)
  have b1: "calculate_priority [(''risk_score'', PNum 0.75)] = Inr ''HIGH''"
    by (simp add: calculate_priority_def priority_incident_count_def py_or_def dict_get_def
        Let_def or_else_def bind_def py_gt_def)
  have b2: "calculate_priority [(''risk_score'', PNum 0.751)] = Inr ''CRITICAL''"
    by (simp add: calculate_priority_def priority_incident_count_def py_or_def dict_get_def
        Let_def or_else_def bind_def py_gt_def)
  have b3: "calculate_priority [(''incident_count'', PNum 3)] = Inr ''HIGH''"
    by (simp add: calculate_priority_def priority_incident_count_def py_or_def dict_get_def
        Let_def or_else_def bind_def py_gt_def)
  have b4: "calculate_priority [(''incident_count'', PNum 4)] = Inr ''CRITICAL''"
    by (simp add: calculate_priority_def priority_incident_count_def py_or_def dict_get_def
        Let_def or_else_def bind_def py_gt_def)
  from general b1 b2 b3 b4 show ?thesis by blast
qed

theorem calculate_priority_rule_witness:
  "calculate_priority [(''risk_score'', PNum 0.5), (''risk_count'', PNum 0), (''incident_count'', PNum 1)]
     = Inr ''MEDIUM''
   \<and> calculate_priority [(''risk_score'', PNum 0.5), (''risk_count'', PNum 3), (''incident_count'', PNum 0)]
     = Inr ''HIGH''"
proof -
  let ?r = "[(''risk_score'', PNum 0.5), (''risk_count'', PNum 0), (''incident_count'', PNum 1)]"
  let ?s = "[(''risk_score'', PNum 0.5), (''risk_count'', PNum 3), (''incident_count'', PNum 0)]"
  have h1: "num_of (dict_get ?r ''risk_score'' (PNum 0)) = Some 0.5"
    by (simp add: dict_get_def)
  have h2: "num_of (if truthy (dict_get ?r ''risk_count'' (PNum 0))
                   then dict_get ?r ''risk_count'' (PNum 0)
                   else dict_get ?r ''incident_count'' (PNum 0)) = Some 1"
    by (simp add: dict_get_def)
  have g1: "num_of (dict_get ?s ''risk_score'' (PNum 0)) = Some 0.5"
    by (simp add: dict_get_def)
  have g2: "num_of (if truthy (dict_get ?s ''risk_count'' (PNum 0))
                   then dict_get ?s ''risk_count'' (PNum 0)
                   else dict_get ?s ''incident_count'' (PNum 0)) = Some 3"
    by (simp add: dict_get_def)
  show ?thesis
    using calculate_priority_rule [OF h1 h2] calculate_priority_rule [OF g1 g2] by simp
qed

text \<open>
  The claim as stated, with the field \<^verbatim>\<open>incident_count\<close>, fails: a record with a
  \<^verbatim>\<open>risk_count\<close> of 5, no \<^verbatim>\<open>incident_count\<close> and no risk score is CRITICAL.
\<close>

theorem priority_reads_risk_count_counterexample:
  "calculate_priority [(''risk_count'', PNum 5)] = Inr ''CRITICAL''
   \<and> dict_get [(''risk_count'', PNum 5)] ''risk_score'' (PNum 0) = PNum 0
   \<and> dict_get [(''risk_count'', PNum 5)] ''incident_count'' (PNum 0) = PNum 0
   \<and> \<not> (0.75 < (0::real) \<or> 3 < (0::real))"
  by (simp add: calculate_priority_def priority_incident_count_def py_or_def dict_get_def
      Let_def or_else_def bind_def py_gt_def)

text \<open>
  Outside the numbers the comparison raises, as Python does on a null value.
\<close>

lemma calculate_priority_null_score: "calculate_priority [(''risk_score'', PNone)] = Inl TypeError"
  by (simp add: calculate_priority_def priority_incident_count_def py_or_def dict_get_def
      Let_def or_else_def bind_def py_gt_def)

text \<open>
  Claim C5. For a result record whose risk score and \<^verbatim>\<open>incident_count\<close> are numbers,
  the suggested actions are, in this order, exactly the applicable ones: the immediate risk
  assessment if the risk score exceeds 0.7, the electric backup if the backup flag is
  false, the flood protection if the flood-proof flag is false and the flood-zone flag is
  true, the investigation of recurring incidents if the incident count exceeds 2; and
  the single action of continued monitoring if none applies. Flags are read by their
  truth value; an absent backup or flood-proof flag counts as true and an absent
  flood-zone flag as false.
\<close>

theorem suggest_actions_rule:
  assumes "num_of (dict_get record ''risk_score'' (PNum 0)) = Some risk_score"
      and "num_of (dict_get record ''incident_count'' (PNum 0)) = Some incident_count"
  shows "suggest_actions record =
           Inr (let applicable =
                      (if 0.7 < risk_score then [''Immediate risk assessment required''] else [])
                    @ (if \<not> truthy (dict_get record ''has_backup'' (PBool True))
                       then [''Install electric backup system''] else [])
                    @ (if \<not> truthy (dict_get record ''flood_proof'' (PBool True))
                          \<and> truthy (dict_get record ''in_flood_zone'' (PBool False))
                       then [''Implement flood protection measures''] else [])
                    @ (if 2 < incident_count then [''Investigate recurring incident patterns''] else [])
                in if applicable = [] then [''Continue monitoring''] else applicable)"
  using assms
  by (simp add: suggest_actions_def Let_def bind_def py_gt_num)

theorem suggest_actions_rule_witness:
  "suggest_actions [(''risk_score'', PNum 0.8), (''has_backup'', PBool False), (''flood_proof'', PBool False),
                    (''in_flood_zone'', PBool True), (''incident_count'', PNum 3)]
     = Inr [''Immediate risk assessment required'', ''Install electric backup system'',
            ''Implement flood protection measures'', ''Investigate recurring incident patterns'']
   \<and> suggest_actions [(''risk_score'', PNum 0.2), (''has_backup'', PBool True)] = Inr [''Continue monitoring'']"
proof -
  let ?r = "[(''risk_score'', PNum 0.8), (''has_backup'', PBool False), (''flood_proof'', PBool False),
             (''in_flood_zone'', PBool True), (''incident_count'', PNum 3)]"
  let ?s = "[(''risk_score'', PNum 0.2), (''has_backup'', PBool True)]"
  have h1: "num_of (dict_get ?r ''risk_score'' (PNum 0)) = Some 0.8"
    by (simp add: dict_get_def)
  have h2: "num_of (dict_get ?r ''incident_count'' (PNum 0)) = Some 3"
    by (simp add: dict_get_def)
  have h3: "num_of (dict_get ?s ''risk_score'' (PNum 0)) = Some 0.2"
    by (simp add: dict_get_def)
  have h4: "num_of (dict_get ?s ''incident_count'' (PNum 0)) = Some 0"
    by (simp add: dict_get_def)
  show ?thesis
    using suggest_actions_rule [OF h1 h2] suggest_actions_rule [OF h3 h4]
    by (simp add: dict_get_def)
qed

section \<open>Recommendations for the first three records\<close>

lemma recommend_each_char:
  "recommend_each rs = Inr recs \<Longrightarrow> list_all2 recommendation_of recs (filter identified rs)"
proof (induction rs arbitrary: recs)
  case Nil
  then show ?case by simp
next
  case (Cons r rs)
  show ?case
  proof (cases "identified r")
    case True
    with Cons.prems obtain p a rest where
      p: "calculate_priority r = Inr p" and a: "suggest_actions r = Inr a"
      and rest: "recommend_each rs = Inr rest"
      and recs: "recs = [(''warehouse_id'', dict_get r ''warehouse_id'' PNone),
                 (''priority'', PStr p), (''actions'', PList (map PStr a))] # rest"
      by (auto simp: identified_def bind_def Let_def split: sum.splits)
    from Cons.IH [OF rest] p a recs True show ?thesis
      by (simp add: recommendation_of_def)
  next
    case False
    with Cons.prems have "recommend_each rs = Inr recs"
      by (simp add: identified_def Let_def)
    from Cons.IH [OF this] False show ?thesis by simp
  qed
qed

lemma recommend_each_returns:
  "list_all (\<lambda>r. identified r \<longrightarrow> numeric_fields r) rs \<Longrightarrow> \<exists>recs. recommend_each rs = Inr recs"
proof (induction rs)
  case Nil
  then show ?case by simp
next
  case (Cons r rs)
  then obtain rest where rest: "recommend_each rs = Inr rest" by auto
  show ?case
  proof (cases "identified r")
    case True
    with Cons.prems have "numeric_fields r" by simp
    from numeric_fields_priority [OF this] numeric_fields_actions [OF this] rest True
    show ?thesis by (auto simp: identified_def bind_def Let_def)
  next
    case False
    with rest show ?thesis by (simp add: identified_def Let_def)
  qed
qed

lemma recommendation_of_fields:
  assumes "recommendation_of rec record"
  shows "(\<exists>p. p \<in> set priorities \<and> map_of rec ''priority'' = Some (PStr p))
       \<and> (\<exists>a. a \<noteq> [] \<and> map_of rec ''actions'' = Some (PList (map PStr a)))
       \<and> map_of rec ''warehouse_id'' = Some (dict_get record ''warehouse_id'' PNone)"
  using assms calculate_priority_range [of "record"] suggest_actions_nonempty [of "record"]
  by (auto simp: recommendation_of_def split: sum.splits)

text \<open>
  Claim C10. Whenever \<^verbatim>\<open>_generate_warehouse_recommendations\<close> returns, its list has
  at most three entries, one for each identified record among the first three results, in
  order (records without a truthy \<^verbatim>\<open>warehouse_id\<close> are skipped); every entry has a
  priority among CRITICAL, HIGH, MEDIUM and LOW and a non-empty list of actions. It
  returns a list, possibly empty, whenever the identified records among the first three
  have numeric fields.
\<close>

theorem warehouse_recommendations_shape:
  "(generate_warehouse_recommendations results = Inr recs \<longrightarrow>
      length recs \<le> 3
      \<and> list_all2 recommendation_of recs (filter identified (take 3 results))
      \<and> list_all (\<lambda>rec.
           (\<exists>p. p \<in> set priorities \<and> map_of rec ''priority'' = Some (PStr p))
           \<and> (\<exists>a. a \<noteq> [] \<and> map_of rec ''actions'' = Some (PList (map PStr a)))) recs)
   \<and> (list_all (\<lambda>r. identified r \<longrightarrow> numeric_fields r) (take 3 results) \<longrightarrow>
        (\<exists>recs'. generate_warehouse_recommendations results = Inr recs'))"
proof (intro conjI impI)
  assume ret: "generate_warehouse_recommendations results = Inr recs"
  then have char: "list_all2 recommendation_of recs (filter identified (take 3 results))"
    by (simp add: generate_warehouse_recommendations_def recommend_each_char)
  then show "list_all2 recommendation_of recs (filter identified (take 3 results))" .
  from char have "length recs = length (filter identified (take 3 results))"
    by (rule list_all2_lengthD)
  also have "\<dots> \<le> length (take 3 results)" by (rule length_filter_le)
  also have "\<dots> \<le> 3" by simp
  finally show "length recs \<le> 3" .
  show "list_all (\<lambda>rec.
           (\<exists>p. p \<in> set priorities \<and> map_of rec ''priority'' = Some (PStr p))
           \<and> (\<exists>a. a \<noteq> [] \<and> map_of rec ''actions'' = Some (PList (map PStr a)))) recs"
    unfolding list_all_iff
  proof
    fix rec assume "rec \<in> set recs"
    with char obtain row where "recommendation_of rec row"
      by (auto simp: list_all2_conv_all_nth in_set_conv_nth)
    from recommendation_of_fields [OF this]
    show "(\<exists>p. p \<in> set priorities \<and> map_of rec ''priority'' = Some (PStr p))
           \<and> (\<exists>a. a \<noteq> [] \<and> map_of rec ''actions'' = Some (PList (map PStr a)))"
      by blast
  qed
next
  assume "list_all (\<lambda>r. identified r \<longrightarrow> numeric_fields r) (take 3 results)"
  then show "\<exists>recs'. generate_warehouse_recommendations results = Inr recs'"
    by (simp add: generate_warehouse_recommendations_def recommend_each_returns)
qed

theorem warehouse_recommendations_shape_witness:
  "generate_warehouse_recommendations sample_results =
     Inr [[(''warehouse_id'', PStr ''WH_0001''), (''priority'', PStr ''CRITICAL''),
           (''actions'', PList [PStr ''Immediate risk assessment required''])],
          [(''warehouse_id'', PStr ''WH_0003''), (''priority'', PStr ''LOW''),
           (''actions'', PList [PStr ''Continue monitoring''])]]
   \<and> list_all2 recommendation_of
        [[(''warehouse_id'', PStr ''WH_0001''), (''priority'', PStr ''CRITICAL''),
          (''actions'', PList [PStr ''Immediate risk assessment required''])],
         [(''warehouse_id'', PStr ''WH_0003''), (''priority'', PStr ''LOW''),
          (''actions'', PList [PStr ''Continue monitoring''])]]
        (filter identified (take 3 sample_results))
   \<and> list_all (\<lambda>r. identified r \<longrightarrow> numeric_fields r) (take 3 sample_results)"
proof -
  let ?recs = "[[(''warehouse_id'', PStr ''WH_0001''), (''priority'', PStr ''CRITICAL''),
           (''actions'', PList [PStr ''Immediate risk assessment required''])],
          [(''warehouse_id'', PStr ''WH_0003''), (''priority'', PStr ''LOW''),
           (''actions'', PList [PStr ''Continue monitoring''])]]"
  have h: "generate_warehouse_recommendations sample_results = Inr ?recs"
    by (simp add: generate_warehouse_recommendations_def sample_results_def dict_get_def
        calculate_priority_def priority_incident_count_def py_or_def or_else_def py_gt_def
        suggest_actions_def bind_def Let_def)
  have n: "list_all (\<lambda>r. identified r \<longrightarrow> numeric_fields r) (take 3 sample_results)"
    by (simp add: sample_results_def numeric_fields_def priority_incident_count_def py_or_def
        dict_get_def del: not_None_eq)
  show ?thesis
    using warehouse_recommendations_shape [of sample_results ?recs] h n by simp
qed

section \<open>Issues of a warehouse record\<close>

lemma severity_issue: "severity [(''type'', a), (''description'', b), (''severity'', s)] = s"
  by (simp add: severity_def dict_get_def)

lemma recurring_issues_severities:
  "list_all risk_entry risks \<Longrightarrow>
     \<exists>issues. recurring_issues render risks = Inr issues
        \<and> map severity issues = map (\<lambda>r. PStr ''high'') (filter recurring risks)"
proof (induction risks)
  case Nil
  then show ?case by simp
next
  case (Cons risk risks)
  then obtain more where more: "recurring_issues render risks = Inr more"
    and sev: "map severity more = map (\<lambda>r. PStr ''high'') (filter recurring risks)"
    by auto
  from Cons.prems obtain d c t where d: "risk = PDict d"
    and c: "num_of (dict_get d ''count'' (PNum 0)) = Some c" and t: "map_of d ''type'' = Some t"
    by (auto simp: risk_entry_def has_key_def split: pyval.splits)
  have rec: "recurring risk = (2 < c)"
    using d c by (simp add: recurring_def)
  show ?case
  proof (cases "2 < c")
    case True
    then have "map_of d ''count'' \<noteq> None"
      using c by (auto simp: dict_get_def split: option.splits)
    then obtain cv where cv: "map_of d ''count'' = Some cv" by auto
    have "recurring_issues render (risk # risks) =
            Inr ([(''type'', PStr ''recurring_incident''),
                  (''description'',
                     PStr (''Multiple '' @ py_str render t @ '' incidents ('' @ py_str render cv @ '')'')),
                  (''severity'', PStr ''high'')] # more)"
      using True d c t cv more
      by (simp add: bind_def py_get_def py_item_def py_gt_num)
    with True rec sev show ?thesis
      by (simp add: severity_issue)
  next
    case False
    have "recurring_issues render (risk # risks) = Inr more"
      using False d c more by (simp add: bind_def py_get_def py_gt_num)
    with False rec sev show ?thesis by simp
  qed
qed

text \<open>
  On a warehouse record with a numeric risk score, an infrastructure dictionary and a list
  of well-formed risk entries, one issue is returned per satisfied rule, in the order of
  the rules; the record of the worked example gives exactly four issues.
\<close>

lemma identify_issues_well_formed:
  assumes "num_of (dict_get warehouse_data ''risk_score'' (PNum 0)) = Some risk_score"
      and "dict_get warehouse_data ''infrastructure'' (PDict []) = PDict infra"
      and "dict_get warehouse_data ''risks'' (PList []) = PList risks"
      and "list_all risk_entry risks"
  shows "(\<exists>issues. identify_issues render fmt3f warehouse_data = Inr issues
            \<and> map severity issues =
                (if 0.7 < risk_score then [PStr ''critical''] else [])
              @ (if \<not> truthy (dict_get infra ''has_electric_backup'' PNone) then [PStr ''high''] else [])
              @ (if \<not> truthy (dict_get infra ''is_flood_proof'' PNone) then [PStr ''medium''] else [])
              @ map (\<lambda>r. PStr ''high'') (filter recurring risks))
       \<and> identify_issues render fmt3f
            [(''risk_score'', PNum 0.71),
             (''infrastructure'', PDict [(''has_electric_backup'', PBool False), (''is_flood_proof'', PBool False)]),
             (''risks'', PList [PDict [(''type'', PStr ''breakdown''), (''count'', PNum 3)]])]
          = Inr [[(''type'', PStr ''high_risk''),
                  (''description'', PStr (''High risk score of '' @ fmt3f (PNum 0.71))),
                  (''severity'', PStr ''critical'')],
                 [(''type'', PStr ''infrastructure''),
                  (''description'', PStr ''No electric backup system''),
                  (''severity'', PStr ''high'')],
                 [(''type'', PStr ''infrastructure''),
                  (''description'', PStr ''Not flood-proof''),
                  (''severity'', PStr ''medium'')],
                 [(''type'', PStr ''recurring_incident''),
                  (''description'', PStr (''Multiple breakdown incidents ('' @ render (PNum 3) @ '')'')),
                  (''severity'', PStr ''high'')]]"
proof (rule conjI)
  from recurring_issues_severities [OF assms(4)] obtain issues4 where
    "recurring_issues render risks = Inr issues4"
    "map severity issues4 = map (\<lambda>r. PStr ''high'') (filter recurring risks)"
    by blast
  with assms(1-3) show "\<exists>issues. identify_issues render fmt3f warehouse_data = Inr issues
            \<and> map severity issues =
                (if 0.7 < risk_score then [PStr ''critical''] else [])
              @ (if \<not> truthy (dict_get infra ''has_electric_backup'' PNone) then [PStr ''high''] else [])
              @ (if \<not> truthy (dict_get infra ''is_flood_proof'' PNone) then [PStr ''medium''] else [])
              @ map (\<lambda>r. PStr ''high'') (filter recurring risks)"
    by (simp add: identify_issues_def Let_def bind_def py_gt_num py_get_def severity_issue)
next
  show "identify_issues render fmt3f
            [(''risk_score'', PNum 0.71),
             (''infrastructure'', PDict [(''has_electric_backup'', PBool False), (''is_flood_proof'', PBool False)]),
             (''risks'', PList [PDict [(''type'', PStr ''breakdown''), (''count'', PNum 3)]])]
          = Inr [[(''type'', PStr ''high_risk''),
                  (''description'', PStr (''High risk score of '' @ fmt3f (PNum 0.71))),
                  (''severity'', PStr ''critical'')],
                 [(''type'', PStr ''infrastructure''),
                  (''description'', PStr ''No electric backup system''),
                  (''severity'', PStr ''high'')],
                 [(''type'', PStr ''infrastructure''),
                  (''description'', PStr ''Not flood-proof''),
                  (''severity'', PStr ''medium'')],
                 [(''type'', PStr ''recurring_incident''),
                  (''description'', PStr (''Multiple breakdown incidents ('' @ render (PNum 3) @ '')'')),
                  (''severity'', PStr ''high'')]]"
    by (simp add: identify_issues_def Let_def bind_def py_gt_def py_get_def py_item_def dict_get_def py_str_def)
qed



section \<open>Execution with context\<close>

lemma execute_query_calls:
  "snd (execute_query db q parameters calls) = calls @ [(q, params_of parameters)]"
  by (simp add: execute_query_def params_of_def Let_def)

lemma execute_query_results:
  "fst (execute_query db q parameters calls) =
     (case db q (params_of parameters) of Inl e \<Rightarrow> [] | Inr records \<Rightarrow> records)"
  by (simp add: execute_query_def params_of_def Let_def)

lemma get_related_entities_calls:
  "snd (get_related_entities db ids calls) =
     calls @ [(related_entities_query, [(''warehouse_ids'', PList ids)])]"
  by (simp add: get_related_entities_def execute_query_calls params_of_def)

lemma get_risk_summary_calls:
  "snd (get_risk_summary db ids calls) =
     calls @ [(risk_summary_query, [(''warehouse_ids'', PList ids)])]"
  using execute_query_calls [of db risk_summary_query "Some [(''warehouse_ids'', PList ids)]" calls]
  by (simp add: get_risk_summary_def case_prod_beta params_of_def)

lemma take_filter_all:
  "\<forall>y \<in> set (take n ys). P y \<Longrightarrow> take n (filter P ys) = take n ys"
proof (induction ys arbitrary: n)
  case Nil
  then show ?case by simp
next
  case (Cons y ys)
  then show ?case by (cases n) auto
qed

lemma first_distinct_of_distinct_prefix:
  "distinct (take n ids) \<Longrightarrow> first_distinct n ids = take n ids"
  unfolding first_distinct_def
proof (induction ids arbitrary: n)
  case Nil
  then show ?case by simp
next
  case (Cons x xs)
  show ?case
  proof (cases n)
    case 0
    then show ?thesis by simp
  next
    case (Suc m)
    with Cons.prems have nx: "x \<notin> set (take m xs)" and d: "distinct (take m xs)" by auto
    from Cons.IH [OF d] have ih: "take m (distinct_in_order xs) = take m xs" .
    have "\<forall>y \<in> set (take m (distinct_in_order xs)). y \<noteq> x"
      using nx ih by auto
    from take_filter_all [OF this] ih Suc show ?thesis by simp
  qed
qed

lemma distinct_distinct_in_order: "distinct (distinct_in_order xs)"
  by (induction xs) auto

lemma first_distinct_iff:
  "take n ids = first_distinct n ids \<longleftrightarrow> distinct (take n ids)"
proof
  assume "take n ids = first_distinct n ids"
  moreover have "distinct (first_distinct n ids)"
    by (simp add: first_distinct_def distinct_distinct_in_order)
  ultimately show "distinct (take n ids)" by simp
next
  assume "distinct (take n ids)"
  then show "take n ids = first_distinct n ids"
    by (simp add: first_distinct_of_distinct_prefix)
qed

lemma extract_duplicate_results:
  "extract_warehouse_ids duplicate_results =
     [PStr ''WH_0001'', PStr ''WH_0001'', PStr ''WH_0002'', PStr ''WH_0003'', PStr ''WH_0004'',
      PStr ''WH_0005'']"
  by (simp add: extract_warehouse_ids_def duplicate_results_def)

lemma extract_distinct_results:
  "extract_warehouse_ids distinct_results = [PStr ''WH_0001'', PStr ''WH_0002'']"
  by (simp add: extract_warehouse_ids_def distinct_results_def)

lemma duplicate_results_nonempty: "duplicate_results \<noteq> []"
  by (simp add: duplicate_results_def)

lemma primary_duplicates:
  "execute_query store_with_duplicates q None calls = (duplicate_results, calls @ [(q, [])])"
  by (simp add: execute_query_def params_of_def store_with_duplicates_def)

text \<open>
  Claim C7. When the store raises on the primary query or answers it with no record,
  \<^verbatim>\<open>execute_query\<close> yields the empty sequence and \<^verbatim>\<open>execute_with_context\<close> returns
  exactly the empty results, the empty context and the summary \<^verbatim>\<open>No results found\<close>,
  after that one call to the store.
\<close>

theorem execute_with_context_empty:
  assumes "db q (params_of parameters) = Inl err \<or> db q (params_of parameters) = Inr []"
  shows "execute_query db q parameters calls = ([], calls @ [(q, params_of parameters)])
       \<and> execute_with_context db results_summary q parameters calls =
           (Inr \<lparr>exec_results = [], exec_context = [], exec_summary = ''No results found''\<rparr>,
            calls @ [(q, params_of parameters)])"
proof -
  have "execute_query db q parameters calls = ([], calls @ [(q, params_of parameters)])"
    using assms by (auto simp: execute_query_def params_of_def Let_def)
  then show ?thesis
    by (simp add: execute_with_context_def)
qed

theorem execute_with_context_empty_witness:
  "execute_with_context (\<lambda>q p. Inl ServiceError) (\<lambda>rs. Inr ''unused'') ''MATCH (n) RETURN n'' None [] =
     (Inr \<lparr>exec_results = [], exec_context = [], exec_summary = ''No results found''\<rparr>,
      [(''MATCH (n) RETURN n'', [])])
   \<and> execute_with_context (\<lambda>q p. Inr []) (\<lambda>rs. Inr ''unused'') ''MATCH (n) RETURN n'' None [] =
     (Inr \<lparr>exec_results = [], exec_context = [], exec_summary = ''No results found''\<rparr>,
      [(''MATCH (n) RETURN n'', [])])"
proof -
  have h1: "(\<lambda>q p. Inl ServiceError) ''MATCH (n) RETURN n'' (params_of None) = Inl ServiceError
            \<or> (\<lambda>q p. Inl ServiceError) ''MATCH (n) RETURN n'' (params_of None) = Inr ([] :: pydict list)"
    by simp
  have h2: "(\<lambda>q p. Inr []) ''MATCH (n) RETURN n'' (params_of None) = (Inl ServiceError :: py_error + pydict list)
            \<or> (\<lambda>q p. Inr []) ''MATCH (n) RETURN n'' (params_of None) = (Inr [] :: py_error + pydict list)"
    by simp
  show ?thesis
    using execute_with_context_empty [OF h1, where results_summary = "\<lambda>rs. Inr ''unused''" and calls = "[]"]
          execute_with_context_empty [OF h2, where results_summary = "\<lambda>rs. Inr ''unused''" and calls = "[]"]
    by (simp add: params_of_def)
qed

text \<open>
  Claim C8, as amended. For every non-empty primary result whose records carry warehouse
  identifiers, \<^verbatim>\<open>execute_with_context\<close> issues its two follow-up queries over the first
  five identifiers in result order, duplicates included; these are the first five distinct
  identifiers exactly when they are pairwise distinct.
\<close>

theorem followup_queries_first_five:
  assumes "fst (execute_query db q parameters calls) = primary_results"
      and "primary_results \<noteq> []"
      and "extract_warehouse_ids primary_results \<noteq> []"
  shows "snd (execute_with_context db results_summary q parameters calls) =
           calls @ [(q, params_of parameters)]
                 @ followup_calls (take 5 (extract_warehouse_ids primary_results))
       \<and> (take 5 (extract_warehouse_ids primary_results)
              = first_distinct 5 (extract_warehouse_ids primary_results)
            \<longleftrightarrow> distinct (take 5 (extract_warehouse_ids primary_results)))"
proof -
  obtain calls1 where eq: "execute_query db q parameters calls = (primary_results, calls1)"
    and calls1: "calls1 = calls @ [(q, params_of parameters)]"
    using assms(1) execute_query_calls [of db q parameters calls]
    by (cases "execute_query db q parameters calls") auto
  have "snd (execute_with_context db results_summary q parameters calls) =
           calls @ [(q, params_of parameters)]
                 @ followup_calls (take 5 (extract_warehouse_ids primary_results))"
    using assms(2,3) calls1
    by (simp add: execute_with_context_def eq Let_def case_prod_beta
        get_related_entities_calls get_risk_summary_calls followup_calls_def)
  with first_distinct_iff [of 5 "extract_warehouse_ids primary_results"] show ?thesis
    by blast
qed

theorem followup_queries_first_five_witness:
  "snd (execute_with_context store_with_duplicates sample_summary ''MATCH (w:Warehouse) RETURN w''
          None [])
     = [(''MATCH (w:Warehouse) RETURN w'', [])]
       @ followup_calls (take 5 (extract_warehouse_ids duplicate_results))
   \<and> take 5 (extract_warehouse_ids duplicate_results)
       \<noteq> first_distinct 5 (extract_warehouse_ids duplicate_results)
   \<and> snd (execute_with_context store_with_distinct sample_summary ''MATCH (w:Warehouse) RETURN w''
          None [])
     = [(''MATCH (w:Warehouse) RETURN w'', [])]
       @ followup_calls [PStr ''WH_0001'', PStr ''WH_0002'']
   \<and> first_distinct 5 (extract_warehouse_ids distinct_results) = [PStr ''WH_0001'', PStr ''WH_0002'']"
proof -
  have h1: "fst (execute_query store_with_duplicates ''MATCH (w:Warehouse) RETURN w'' None [])
              = duplicate_results"
    by (simp add: primary_duplicates)
  have h3: "extract_warehouse_ids duplicate_results \<noteq> []"
    by (simp add: extract_duplicate_results)
  have g1: "fst (execute_query store_with_distinct ''MATCH (w:Warehouse) RETURN w'' None [])
              = distinct_results"
    by (simp add: execute_query_def params_of_def store_with_distinct_def)
  have g2: "distinct_results \<noteq> []"
    by (simp add: distinct_results_def)
  have g3: "extract_warehouse_ids distinct_results \<noteq> []"
    by (simp add: extract_distinct_results)
  have nd: "\<not> distinct (take 5 (extract_warehouse_ids duplicate_results))"
    by (simp add: extract_duplicate_results)
  have d: "distinct (take 5 (extract_warehouse_ids distinct_results))"
    by (simp add: extract_distinct_results)
  have a: "snd (execute_with_context store_with_duplicates sample_summary ''MATCH (w:Warehouse) RETURN w''
          None [])
     = [(''MATCH (w:Warehouse) RETURN w'', [])]
       @ followup_calls (take 5 (extract_warehouse_ids duplicate_results))
   \<and> take 5 (extract_warehouse_ids duplicate_results)
       \<noteq> first_distinct 5 (extract_warehouse_ids duplicate_results)"
    using followup_queries_first_five [OF h1 duplicate_results_nonempty h3,
        where results_summary = sample_summary] nd
    by (simp add: params_of_def)
  have b: "snd (execute_with_context store_with_distinct sample_summary ''MATCH (w:Warehouse) RETURN w''
          None [])
     = [(''MATCH (w:Warehouse) RETURN w'', [])]
       @ followup_calls (take 5 (extract_warehouse_ids distinct_results))
   \<and> take 5 (extract_warehouse_ids distinct_results)
       = first_distinct 5 (extract_warehouse_ids distinct_results)"
    using followup_queries_first_five [OF g1 g2 g3, where results_summary = sample_summary] d
    by (simp add: params_of_def)
  from a b show ?thesis
    by (simp add: extract_distinct_results)
qed

text \<open>
  The claim as stated fails: with the identifiers 1, 1, 2, 3, 4, 5 the follow-up queries
  run over 1, 1, 2, 3, 4 and leave out the fifth distinct identifier.
\<close>

theorem first_five_distinct_counterexample:
  "extract_warehouse_ids (fst (execute_query store_with_duplicates ''MATCH (w:Warehouse) RETURN w'' None []))
     = [PStr ''WH_0001'', PStr ''WH_0001'', PStr ''WH_0002'', PStr ''WH_0003'', PStr ''WH_0004'',
        PStr ''WH_0005'']
   \<and> first_distinct 5 (extract_warehouse_ids duplicate_results)
     = [PStr ''WH_0001'', PStr ''WH_0002'', PStr ''WH_0003'', PStr ''WH_0004'', PStr ''WH_0005'']
   \<and> snd (execute_with_context store_with_duplicates sample_summary ''MATCH (w:Warehouse) RETURN w'' None [])
     = [(''MATCH (w:Warehouse) RETURN w'', [])]
       @ followup_calls [PStr ''WH_0001'', PStr ''WH_0001'', PStr ''WH_0002'', PStr ''WH_0003'',
                         PStr ''WH_0004'']
   \<and> snd (execute_with_context store_with_duplicates sample_summary ''MATCH (w:Warehouse) RETURN w'' None [])
     \<noteq> [(''MATCH (w:Warehouse) RETURN w'', [])]
       @ followup_calls (first_distinct 5 (extract_warehouse_ids duplicate_results))"
proof -
  have ids: "extract_warehouse_ids (fst (execute_query store_with_duplicates ''MATCH (w:Warehouse) RETURN w'' None []))
     = [PStr ''WH_0001'', PStr ''WH_0001'', PStr ''WH_0002'', PStr ''WH_0003'', PStr ''WH_0004'',
        PStr ''WH_0005'']"
    by (simp add: primary_duplicates extract_duplicate_results)
  have fd: "first_distinct 5 (extract_warehouse_ids duplicate_results)
     = [PStr ''WH_0001'', PStr ''WH_0002'', PStr ''WH_0003'', PStr ''WH_0004'', PStr ''WH_0005'']"
    by (simp add: extract_duplicate_results first_distinct_def)
  have run: "snd (execute_with_context store_with_duplicates sample_summary ''MATCH (w:Warehouse) RETURN w'' None [])
     = [(''MATCH (w:Warehouse) RETURN w'', [])]
       @ followup_calls [PStr ''WH_0001'', PStr ''WH_0001'', PStr ''WH_0002'', PStr ''WH_0003'',
                         PStr ''WH_0004'']"
    by (simp add: execute_with_context_def primary_duplicates duplicate_results_nonempty
        extract_duplicate_results Let_def case_prod_beta get_related_entities_calls
        get_risk_summary_calls followup_calls_def)
  have neq: "snd (execute_with_context store_with_duplicates sample_summary ''MATCH (w:Warehouse) RETURN w'' None [])
     \<noteq> [(''MATCH (w:Warehouse) RETURN w'', [])]
       @ followup_calls (first_distinct 5 (extract_warehouse_ids duplicate_results))"
    unfolding run fd by (simp add: followup_calls_def)
  from ids fd run neq show ?thesis by blast
qed

section \<open>Shapes of the pipeline responses\<close>

lemma response_keys:
  "map fst (error_response msg) = error_keys"
  "map fst (no_results_response query understanding) = no_results_keys"
  "map fst (success_response e query answer results ctx understanding cypher recommendations) = success_keys"
  by (simp_all add: error_response_def no_results_response_def success_response_def
      error_keys_def no_results_keys_def success_keys_def)

lemma response_metadata_keys:
  "metadata_keys (error_response msg)
     = [''processing_time_seconds'', ''results_returned'', ''query_complexity'', ''graph_pattern'']"
  "metadata_keys (no_results_response query understanding)
     = [''processing_time_seconds'', ''results_returned'', ''query_complexity'', ''graph_pattern'']"
  "metadata_keys (success_response e query answer results ctx understanding cypher recommendations)
     = [''processing_time_seconds'', ''results_returned'', ''query_complexity'', ''graph_pattern'']"
  by (simp_all add: metadata_keys_def error_response_def no_results_response_def success_response_def)

text \<open>
  Claim C9, as amended. Every response of \<^verbatim>\<open>process_query\<close> has one of three key
  sets. All three have \<^verbatim>\<open>success\<close>, \<^verbatim>\<open>answer\<close>, \<^verbatim>\<open>results\<close>, \<^verbatim>\<open>result_count\<close>
  and \<^verbatim>\<open>metadata\<close>, with the same four metadata keys. The error response adds
  \<^verbatim>\<open>error\<close> and has no \<^verbatim>\<open>query\<close>, \<^verbatim>\<open>context\<close>, \<^verbatim>\<open>understanding\<close>,
  \<^verbatim>\<open>cypher_query\<close> or \<^verbatim>\<open>recommendations\<close>; the no-results response adds
  \<^verbatim>\<open>suggestion\<close> and has no \<^verbatim>\<open>context\<close>, \<^verbatim>\<open>cypher_query\<close> or
  \<^verbatim>\<open>recommendations\<close>.
\<close>

theorem response_shapes:
  "map fst (error_response msg) = error_keys
   \<and> map fst (no_results_response query understanding) = no_results_keys
   \<and> map fst (success_response e query answer results ctx understanding cypher recommendations)
       = success_keys
   \<and> (map fst (GraphRAGPipeline_process_query e user_query use_templates generate_recommendations)
         = success_keys
       \<or> map fst (GraphRAGPipeline_process_query e user_query use_templates generate_recommendations)
         = error_keys
       \<or> map fst (GraphRAGPipeline_process_query e user_query use_templates generate_recommendations)
         = no_results_keys)
   \<and> metadata_keys (GraphRAGPipeline_process_query e user_query use_templates generate_recommendations)
       = [''processing_time_seconds'', ''results_returned'', ''query_complexity'', ''graph_pattern'']
   \<and> filter (\<lambda>k. k \<in> set error_keys \<and> k \<in> set no_results_keys) success_keys
       = [''success'', ''answer'', ''results'', ''result_count'', ''metadata'']
   \<and> filter (\<lambda>k. k \<notin> set error_keys) success_keys
       = [''query'', ''context'', ''understanding'', ''cypher_query'', ''recommendations'']
   \<and> filter (\<lambda>k. k \<notin> set no_results_keys) success_keys
       = [''context'', ''cypher_query'', ''recommendations'']"
proof -
  have shape: "map fst (GraphRAGPipeline_process_query e user_query use_templates generate_recommendations)
         = success_keys
       \<or> map fst (GraphRAGPipeline_process_query e user_query use_templates generate_recommendations)
         = error_keys
       \<or> map fst (GraphRAGPipeline_process_query e user_query use_templates generate_recommendations)
         = no_results_keys"
    unfolding GraphRAGPipeline_process_query_def pipeline_body_def Let_def bind_def
    by (auto simp: response_keys split: sum.splits if_splits)
  have meta: "metadata_keys (GraphRAGPipeline_process_query e user_query use_templates generate_recommendations)
       = [''processing_time_seconds'', ''results_returned'', ''query_complexity'', ''graph_pattern'']"
    unfolding GraphRAGPipeline_process_query_def pipeline_body_def Let_def bind_def
    by (auto simp: response_metadata_keys split: sum.splits if_splits)
  have common: "filter (\<lambda>k. k \<in> set error_keys \<and> k \<in> set no_results_keys) success_keys
       = [''success'', ''answer'', ''results'', ''result_count'', ''metadata'']"
    by (simp add: error_keys_def no_results_keys_def success_keys_def)
  have miss1: "filter (\<lambda>k. k \<notin> set error_keys) success_keys
       = [''query'', ''context'', ''understanding'', ''cypher_query'', ''recommendations'']"
    by (simp add: error_keys_def success_keys_def)
  have miss2: "filter (\<lambda>k. k \<notin> set no_results_keys) success_keys
       = [''context'', ''cypher_query'', ''recommendations'']"
    by (simp add: no_results_keys_def success_keys_def)
  from response_keys shape meta common miss1 miss2
  show ?thesis by blast
qed

theorem response_shapes_witness:
  "metadata_keys (GraphRAGPipeline_process_query env_empty_store ''Which warehouses are at risk?'' True False)
     = [''processing_time_seconds'', ''results_returned'', ''query_complexity'', ''graph_pattern'']
   \<and> filter (\<lambda>k. k \<notin> set no_results_keys) success_keys
       = [''context'', ''cypher_query'', ''recommendations'']"
  using response_shapes [where e = env_empty_store and user_query = "''Which warehouses are at risk?''"
      and use_templates = True and generate_recommendations = False]
  by blast

text \<open>
  The claim as stated fails: the error response has no \<^verbatim>\<open>query\<close> key and the
  no-results response has no \<^verbatim>\<open>context\<close> key.
\<close>

theorem response_shapes_counterexample:
  "GraphRAGPipeline_process_query env_unhashable_intent ''Which warehouses are at risk?'' True False
     = error_response ''unhashable type''
   \<and> ''query'' \<notin> set (map fst (error_response ''unhashable type''))
   \<and> GraphRAGPipeline_process_query env_empty_store ''Which warehouses are at risk?'' True False
     = no_results_response ''Which warehouses are at risk?'' (default_understanding ''general_query'')
   \<and> ''context'' \<notin> set (map fst (no_results_response ''Which warehouses are at risk?''
                                      (default_understanding ''general_query'')))"
proof -
  note a = unhashable_intent_raises
  have r1: "GraphRAGPipeline_process_query env_unhashable_intent ''Which warehouses are at risk?'' True False
     = error_response ''unhashable type''"
    by (simp add: GraphRAGPipeline_process_query_def pipeline_body_def env_unhashable_intent_def a bind_def)
  note b = not_json_falls_back
  have r2: "GraphRAGPipeline_process_query env_empty_store ''Which warehouses are at risk?'' True False
     = no_results_response ''Which warehouses are at risk?'' (default_understanding ''general_query'')"
    by (simp add: GraphRAGPipeline_process_query_def pipeline_body_def env_empty_store_def b bind_def
        fallback_texts_head execute_with_context_def execute_query_def params_of_def Let_def)
  have k1: "''query'' \<notin> set (map fst (error_response ''unhashable type''))"
    by (simp add: response_keys error_keys_def)
  have k2: "''context'' \<notin> set (map fst (no_results_response ''Which warehouses are at risk?''
                                      (default_understanding ''general_query'')))"
    by (simp add: response_keys no_results_keys_def)
  from r1 r2 k1 k2 show ?thesis by blast
qed

end
